theory Spec2Isabelle
  imports Complex_Main "HOL-Library.Sublist" "HOL-Library.Log_Nat"
begin

section \<open>JavaScript values and errors\<close>

text \<open>
  The values that reach the data layer are JSON-like trees.  An object is the list of its
  own enumerable properties in enumeration order (keys distinct); an array is the list
  of its elements, its own enumerable keys being the indices \<open>0, 1, \<dots>\<close>.  Numbers are
  integer valued.  There are no function values, so a property named
  \<open>hasOwnProperty\<close> that an object owns is never callable.
\<close>

datatype jsval =
    JUndefined
  | JNull
  | JBool bool
  | JNum int
  | JStr string
  | JArr "jsval list"
  | JObj "(string \<times> jsval) list"

text \<open>
  A thrown value: \<open>new Error(message)\<close>, a \<open>TypeError\<close> of the engine, or an error of
  the Firebase SDK, which carries a \<open>code\<close>.
\<close>

datatype js_error =
    Error string
  | TypeError string
  | FirebaseError string string

fun err_message :: "js_error \<Rightarrow> string" where
  "err_message (Error m) = m"
| "err_message (TypeError m) = m"
| "err_message (FirebaseError c m) = m"

fun err_code :: "js_error \<Rightarrow> string option" where
  "err_code (Error m) = None"
| "err_code (TypeError m) = None"
| "err_code (FirebaseError c m) = Some c"

fun truthy :: "jsval \<Rightarrow> bool" where
  "truthy JUndefined = False"
| "truthy JNull = False"
| "truthy (JBool b) = b"
| "truthy (JNum n) = (n \<noteq> 0)"
| "truthy (JStr s) = (s \<noteq> [])"
| "truthy (JArr xs) = True"
| "truthy (JObj kvs) = True"

fun typeof :: "jsval \<Rightarrow> string" where
  "typeof JUndefined = ''undefined''"
| "typeof JNull = ''object''"
| "typeof (JBool b) = ''boolean''"
| "typeof (JNum n) = ''number''"
| "typeof (JStr s) = ''string''"
| "typeof (JArr xs) = ''object''"
| "typeof (JObj kvs) = ''object''"

text \<open>The decimal numeral of a number, as a template literal or a property key prints it.\<close>

definition digit_char :: "nat \<Rightarrow> char" where
  "digit_char d = ''0123456789abcdef'' ! d"

function string_of_nat :: "nat \<Rightarrow> string" where
  "string_of_nat n =
     (if n \<ge> 10 then string_of_nat (n div 10) @ [digit_char (n mod 10)]
      else [digit_char n])"
  by pat_completeness auto
termination
  by (relation "measure (\<lambda>n. n)") simp_all

declare string_of_nat.simps [simp del]

definition string_of_int :: "int \<Rightarrow> string" where
  "string_of_int i = (if i < 0 then ''-'' @ string_of_nat (nat (- i)) else string_of_nat (nat i))"

text \<open>The own enumerable properties of a value, in \<open>for \<dots> in\<close> order.\<close>

fun index_props :: "nat \<Rightarrow> jsval list \<Rightarrow> (string \<times> jsval) list" where
  "index_props i [] = []"
| "index_props i (x # xs) = (string_of_nat i, x) # index_props (Suc i) xs"

fun own_props :: "jsval \<Rightarrow> (string \<times> jsval) list" where
  "own_props (JObj kvs) = kvs"
| "own_props (JArr xs) = index_props 0 xs"
| "own_props v = []"

text \<open>
  \<open>obj[key]\<close> and \<open>obj.key\<close> for a named key.  Every read in the source is guarded by a
  truthiness test of the object, so null and undefined are never dereferenced.
\<close>

definition get_prop :: "jsval \<Rightarrow> string \<Rightarrow> jsval" where
  "get_prop obj key = (case map_of (own_props obj) key of None \<Rightarrow> JUndefined | Some v \<Rightarrow> v)"

text \<open>\<open>obj[key] = v\<close> on the property list of an object.\<close>

fun set_prop :: "(string \<times> jsval) list \<Rightarrow> string \<Rightarrow> jsval \<Rightarrow> (string \<times> jsval) list" where
  "set_prop [] key v = [(key, v)]"
| "set_prop ((k, x) # kvs) key v =
     (if k = key then (k, v) # kvs else (k, x) # set_prop kvs key v)"

text \<open>
  \<open>recv.hasOwnProperty(key)\<close>, where \<open>recv\<close> is the variable that holds the object: the
  method is looked up on the object first, and an own property of that name shadows
  \<open>Object.prototype.hasOwnProperty\<close> with a value that is not a function.  The message
  of the engine's \<open>TypeError\<close> names the receiver as the source text does.
\<close>

definition hasOwnProperty :: "string \<Rightarrow> jsval \<Rightarrow> string \<Rightarrow> js_error + bool" where
  "hasOwnProperty recv obj key =
     (if map_of (own_props obj) ''hasOwnProperty'' \<noteq> None
      then Inl (TypeError (recv @ ''.hasOwnProperty is not a function''))
      else Inr (map_of (own_props obj) key \<noteq> None))"

text \<open>
  What the platform supplies: \<open>JSON.stringify\<close>, the \<open>stack\<close> of an error, the
  \<open>serverTimestamp()\<close> sentinel and \<open>new Date(t).toISOString()\<close>.
\<close>

record runtime =
  JSON_stringify :: "jsval \<Rightarrow> string"
  stack :: "js_error \<Rightarrow> jsval"
  serverTimestamp :: jsval
  toISOString :: "int \<Rightarrow> string"

section \<open>Validation and sanitization (scripts/data.js)\<close>

definition MAX_RETRY_ATTEMPTS :: int where
  "MAX_RETRY_ATTEMPTS = 3"

definition RETRY_DELAY :: int where
  "RETRY_DELAY = 1000"

definition ALLOWED_AUDIT_FIELDS :: "string list" where
  "ALLOWED_AUDIT_FIELDS =
     [''action'', ''actorId'', ''actedBy'', ''targetId'', ''target'',
      ''details'', ''role'', ''asRole'', ''duration'', ''error'']"

definition MAX_AUDIT_ENTRY_SIZE :: nat where
  "MAX_AUDIT_ENTRY_SIZE = 10000"

definition MAX_DETAILS_SIZE :: nat where
  "MAX_DETAILS_SIZE = 5000"

text \<open>\<open>validateDocParams(schoolId, docId = null)\<close>: an omitted \<open>docId\<close> is null.\<close>

definition validateDocParams :: "jsval \<Rightarrow> jsval \<Rightarrow> js_error + unit" where
  "validateDocParams schoolId docId0 =
     (let docId = (if docId0 = JUndefined then JNull else docId0)
      in if \<not> truthy schoolId \<or> typeof schoolId \<noteq> ''string''
         then Inl (Error ''Invalid schoolId: must be a non-empty string'')
         else if docId \<noteq> JNull \<and> (\<not> truthy docId \<or> typeof docId \<noteq> ''string'')
         then Inl (Error ''Invalid document ID: must be a non-empty string'')
         else Inr ())"

text \<open>
  \<open>sanitizeObject\<close>.  \<open>sanitize_props\<close> is the \<open>for (const key in obj)\<close> loop over the
  properties still to visit; its flag says whether the object owns a property named
  \<open>hasOwnProperty\<close>, in which case the call \<open>obj.hasOwnProperty(key)\<close> throws at the
  first key that is not skipped.  \<open>sanitize_elems\<close> is the same loop over an array,
  whose keys are its indices.
\<close>

fun sanitizeObject :: "jsval \<Rightarrow> js_error + jsval"
  and sanitize_props :: "bool \<Rightarrow> (string \<times> jsval) list \<Rightarrow> js_error + (string \<times> jsval) list"
  and sanitize_elems :: "nat \<Rightarrow> jsval list \<Rightarrow> js_error + (string \<times> jsval) list"
where
  "sanitizeObject (JObj kvs) =
     (case sanitize_props (map_of kvs ''hasOwnProperty'' \<noteq> None) kvs of
        Inl e \<Rightarrow> Inl e
      | Inr sanitized \<Rightarrow> Inr (JObj sanitized))"
| "sanitizeObject (JArr xs) =
     (case sanitize_elems 0 xs of
        Inl e \<Rightarrow> Inl e
      | Inr sanitized \<Rightarrow> Inr (JObj sanitized))"
| "sanitizeObject JUndefined = Inr JUndefined"
| "sanitizeObject JNull = Inr JNull"
| "sanitizeObject (JBool b) = Inr (JBool b)"
| "sanitizeObject (JNum n) = Inr (JNum n)"
| "sanitizeObject (JStr s) = Inr (JStr s)"
| "sanitize_props shadowed [] = Inr []"
| "sanitize_props shadowed ((key, value) # rest) =
     (if key = ''__proto__'' \<or> key = ''constructor'' \<or> key = ''prototype''
      then sanitize_props shadowed rest
      else if shadowed then Inl (TypeError ''obj.hasOwnProperty is not a function'')
      else (case (if typeof value = ''object'' \<and> value \<noteq> JNull
                  then sanitizeObject value else Inr value) of
              Inl e \<Rightarrow> Inl e
            | Inr v \<Rightarrow>
                (case sanitize_props shadowed rest of
                   Inl e \<Rightarrow> Inl e
                 | Inr sanitized \<Rightarrow> Inr ((key, v) # sanitized))))"
| "sanitize_elems i [] = Inr []"
| "sanitize_elems i (value # rest) =
     (case (if typeof value = ''object'' \<and> value \<noteq> JNull
            then sanitizeObject value else Inr value) of
        Inl e \<Rightarrow> Inl e
      | Inr v \<Rightarrow>
          (case sanitize_elems (Suc i) rest of
             Inl e \<Rightarrow> Inl e
           | Inr sanitized \<Rightarrow> Inr ((string_of_nat i, v) # sanitized)))"

text \<open>
  The whitelist loop of \<open>validateAuditEntry\<close> (lines 136-140), with its call
  \<open>entry.hasOwnProperty(key)\<close>.
\<close>

fun whitelist ::
  "jsval \<Rightarrow> string list \<Rightarrow> (string \<times> jsval) list \<Rightarrow> js_error + (string \<times> jsval) list" where
  "whitelist entry [] sanitized = Inr sanitized"
| "whitelist entry (key # keys) sanitized =
     (case hasOwnProperty ''entry'' entry key of
        Inl e \<Rightarrow> Inl e
      | Inr own \<Rightarrow>
          whitelist entry keys
            (if own then set_prop sanitized key (get_prop entry key) else sanitized))"

definition truncation_marker :: "nat \<Rightarrow> jsval" where
  "truncation_marker detailsSize =
     JObj [(''_truncated'', JBool True),
           (''_size'', JNum (int detailsSize)),
           (''summary'', JStr ''Details truncated due to size limit'')]"

text \<open>Lines 143-156: the \<open>details\<close> of the whitelisted entry are sanitized and bounded.\<close>

definition bound_details ::
  "runtime \<Rightarrow> (string \<times> jsval) list \<Rightarrow> js_error + (string \<times> jsval) list" where
  "bound_details rt sanitized =
     (let details = get_prop (JObj sanitized) ''details''
      in if truthy details \<and> typeof details = ''object'' then
           (case sanitizeObject details of
              Inl e \<Rightarrow> Inl e
            | Inr d \<Rightarrow>
                (let detailsSize = length (JSON_stringify rt d)
                 in if detailsSize > MAX_DETAILS_SIZE
                    then Inr (set_prop sanitized ''details'' (truncation_marker detailsSize))
                    else Inr (set_prop sanitized ''details'' d)))
         else Inr sanitized)"

text \<open>Lines 120-156: the checks of the required fields and the assembly of the entry.\<close>

definition assemble_entry :: "runtime \<Rightarrow> jsval \<Rightarrow> js_error + (string \<times> jsval) list" where
  "assemble_entry rt entry =
     (if \<not> truthy entry \<or> typeof entry \<noteq> ''object''
      then Inl (Error ''Audit entry must be an object'')
      else if \<not> truthy (get_prop entry ''action'') \<or> typeof (get_prop entry ''action'') \<noteq> ''string''
      then Inl (Error ''Audit entry must have an \"action\" field'')
      else if \<not> truthy (get_prop entry ''actorId'') \<and> \<not> truthy (get_prop entry ''actedBy'')
      then Inl (Error ''Audit entry must have \"actorId\" or \"actedBy\" field'')
      else (case whitelist entry ALLOWED_AUDIT_FIELDS [] of
              Inl e \<Rightarrow> Inl e
            | Inr sanitized \<Rightarrow> bound_details rt sanitized))"

definition validateAuditEntry :: "runtime \<Rightarrow> jsval \<Rightarrow> js_error + jsval" where
  "validateAuditEntry rt entry =
     (case assemble_entry rt entry of
        Inl e \<Rightarrow> Inl e
      | Inr sanitized \<Rightarrow>
          (let entrySize = length (JSON_stringify rt (JObj sanitized))
           in if entrySize > MAX_AUDIT_ENTRY_SIZE
              then Inl (Error (''Audit entry too large: '' @ string_of_nat entrySize @
                               '' bytes (max '' @ string_of_nat MAX_AUDIT_ENTRY_SIZE @ '')''))
              else Inr (JObj sanitized)))"

text \<open>
  The checks of lines 120-131 passed: the entry is an object with a non-empty string
  \<open>action\<close> and a truthy \<open>actorId\<close> or \<open>actedBy\<close>.
\<close>

definition required_fields_ok :: "jsval \<Rightarrow> bool" where
  "required_fields_ok entry =
     (truthy entry \<and> typeof entry = ''object'' \<and>
      truthy (get_prop entry ''action'') \<and> typeof (get_prop entry ''action'') = ''string'' \<and>
      (truthy (get_prop entry ''actorId'') \<or> truthy (get_prop entry ''actedBy'')))"

definition too_large_message :: "nat \<Rightarrow> string" where
  "too_large_message entrySize =
     ''Audit entry too large: '' @ string_of_nat entrySize @
     '' bytes (max '' @ string_of_nat MAX_AUDIT_ENTRY_SIZE @ '')''"

text \<open>
  The keys that \<open>sanitizeObject\<close> drops, the value found by following a path of own
  property keys, and the values that are neither objects nor arrays.
\<close>

definition polluting :: "string \<Rightarrow> bool" where
  "polluting key = (key = ''__proto__'' \<or> key = ''constructor'' \<or> key = ''prototype'')"

fun at_path :: "jsval \<Rightarrow> string list \<Rightarrow> jsval option" where
  "at_path v [] = Some v"
| "at_path v (k # ks) =
     (case map_of (own_props v) k of None \<Rightarrow> None | Some x \<Rightarrow> at_path x ks)"

fun is_leaf :: "jsval \<Rightarrow> bool" where
  "is_leaf (JArr xs) = False"
| "is_leaf (JObj kvs) = False"
| "is_leaf v = True"

text \<open>
  No object that \<open>sanitizeObject\<close> visits owns a property named \<open>hasOwnProperty\<close>
  (the values under a dropped key are not visited).
\<close>

fun no_shadowing :: "jsval \<Rightarrow> bool"
  and no_shadowing_props :: "(string \<times> jsval) list \<Rightarrow> bool"
  and no_shadowing_elems :: "jsval list \<Rightarrow> bool"
where
  "no_shadowing (JObj kvs) = (map_of kvs ''hasOwnProperty'' = None \<and> no_shadowing_props kvs)"
| "no_shadowing (JArr xs) = no_shadowing_elems xs"
| "no_shadowing JUndefined = True"
| "no_shadowing JNull = True"
| "no_shadowing (JBool b) = True"
| "no_shadowing (JNum n) = True"
| "no_shadowing (JStr s) = True"
| "no_shadowing_props [] = True"
| "no_shadowing_props ((key, value) # rest) =
     ((polluting key \<or> no_shadowing value) \<and> no_shadowing_props rest)"
| "no_shadowing_elems [] = True"
| "no_shadowing_elems (value # rest) = (no_shadowing value \<and> no_shadowing_elems rest)"

section \<open>Numbers\<close>

text \<open>
  A number of the recalculation is an IEEE 754 double: a finite value, given by the
  rational it denotes, an infinity or NaN.  An arithmetic operation returns its exact
  result rounded to the nearest double, a tie going to the even significand
  (\<open>to_double\<close>).  Around \<open>x\<close> with \<open>2 ^ e \<le> \<bar>x\<bar> < 2 ^ (e + 1)\<close> the doubles are the
  multiples of \<open>2 ^ (e - 52)\<close>; below \<open>2 ^ (- 1022)\<close> they stay the multiples of
  \<open>2 ^ (- 1074)\<close>; a result that rounds to \<open>2 ^ 1024\<close> or more is an infinity.  The
  sign of a zero is not tracked: a zero divisor counts as \<open>+0\<close>, the value that the sums
  of the recalculation start from.
\<close>

datatype jsnum = Fin rat | PosInf | NegInf | NaN

text \<open>
  The exponent \<open>e\<close> with \<open>2 ^ e \<le> x < 2 ^ (e + 1)\<close> of a positive rational, from the bit
  length of the integer part of \<open>x\<close>, or of \<open>1 / x\<close> rounded up when \<open>x < 1\<close>.
\<close>

definition ilog2 :: "rat \<Rightarrow> int" where
  "ilog2 x = (if 1 \<le> x then bitlen \<lfloor>x\<rfloor> - 1 else - bitlen (\<lceil>1 / x\<rceil> - 1))"

definition round_half_even :: "rat \<Rightarrow> int" where
  "round_half_even y =
     (let f = \<lfloor>y\<rfloor>
      in if y - of_int f < 1 / 2 then f
         else if 1 / 2 < y - of_int f then f + 1
         else if even f then f else f + 1)"

definition to_double :: "rat \<Rightarrow> jsnum" where
  "to_double x =
     (if x = 0 then Fin 0
      else (let e = max (ilog2 \<bar>x\<bar>) (- 1022);
                q = 2 powi (e - 52);
                r = of_int (round_half_even (\<bar>x\<bar> / q)) * q
            in if 2 powi 1024 \<le> r then (if 0 < x then PosInf else NegInf)
               else Fin (if 0 < x then r else - r)))"

text \<open>The operators \<open>+\<close>, \<open>*\<close> and \<open>/\<close> and the test \<open>x > 0\<close>.\<close>

fun num_add :: "jsnum \<Rightarrow> jsnum \<Rightarrow> jsnum" where
  "num_add (Fin a) (Fin b) = to_double (a + b)"
| "num_add NaN y = NaN"
| "num_add x NaN = NaN"
| "num_add PosInf NegInf = NaN"
| "num_add NegInf PosInf = NaN"
| "num_add PosInf y = PosInf"
| "num_add x PosInf = PosInf"
| "num_add NegInf y = NegInf"
| "num_add x NegInf = NegInf"

fun num_mul :: "jsnum \<Rightarrow> jsnum \<Rightarrow> jsnum" where
  "num_mul (Fin a) (Fin b) = to_double (a * b)"
| "num_mul NaN y = NaN"
| "num_mul x NaN = NaN"
| "num_mul (Fin a) y =
     (if a = 0 then NaN else if (0 < a) = (y = PosInf) then PosInf else NegInf)"
| "num_mul x (Fin b) =
     (if b = 0 then NaN else if (0 < b) = (x = PosInf) then PosInf else NegInf)"
| "num_mul x y = (if x = y then PosInf else NegInf)"

fun num_div :: "jsnum \<Rightarrow> jsnum \<Rightarrow> jsnum" where
  "num_div (Fin a) (Fin b) =
     (if b = 0 then (if a = 0 then NaN else if 0 < a then PosInf else NegInf)
      else to_double (a / b))"
| "num_div NaN y = NaN"
| "num_div x NaN = NaN"
| "num_div (Fin a) y = Fin 0"
| "num_div x (Fin b) = (if (0 \<le> b) = (x = PosInf) then PosInf else NegInf)"
| "num_div x y = NaN"

fun gt_zero :: "jsnum \<Rightarrow> bool" where
  "gt_zero (Fin a) = (0 < a)"
| "gt_zero PosInf = True"
| "gt_zero NegInf = False"
| "gt_zero NaN = False"

text \<open>\<open>Math.round\<close>: the nearest integer, a tie going up; an infinity and NaN are kept.\<close>

fun Math_round :: "jsnum \<Rightarrow> jsnum" where
  "Math_round (Fin x) = Fin (of_int \<lfloor>x + 1 / 2\<rfloor>)"
| "Math_round PosInf = PosInf"
| "Math_round NegInf = NegInf"
| "Math_round NaN = NaN"

section \<open>Documents of the store\<close>

text \<open>
  What a property read on the matrix of a day can yield: undefined, null, a boolean, a
  number, or a value of another type (a string, a function, an object).  The
  recalculation observes a value of another type through \<open>Number(value)\<close> and through
  its truthiness only, and the last constructor carries these two.
\<close>

datatype val = VUndefined | VNull | VBool bool | VNum jsnum | VOther jsnum bool

text \<open>
  A property read on a plain object that does not own the key goes on to
  \<open>Object.prototype\<close>, where it finds \<open>toString\<close>, \<open>constructor\<close> and the other
  members that every plain object inherits.  The built-in objects are not part of the
  repository and are a parameter: \<open>object_member key\<close> is the member that a plain
  object inherits under \<open>key\<close> (None when there is none), and \<open>inherited_member k key\<close>
  is the outcome of reading \<open>key\<close> on the member inherited under \<open>k\<close>, a read that can
  throw.
\<close>

record builtins =
  object_member :: "string \<Rightarrow> val option"
  inherited_member :: "string \<Rightarrow> string \<Rightarrow> js_error + val"

record period =
  period_id :: string
  period_am :: bool

record goal =
  goal_id :: string
  goal_kind :: string

text \<open>
  The fields of a Firestore document that the code reads, and the \<open>totals\<close> that it
  writes.  A field that the document does not have is None (undefined in the source).
  The matrix holds the own properties of the stored map, period by period.
\<close>

record doc =
  schedule :: "period list option"
  goals :: "goal list option"
  planType :: "string option"
  matrix :: "(string \<rightharpoonup> (string \<rightharpoonup> val)) option"
  incidents :: "jsval list option"
  totals :: "(string \<times> jsnum) list option"

definition empty_doc :: doc where
  "empty_doc =
     \<lparr>schedule = None, goals = None, planType = None, matrix = None, incidents = None,
      totals = None\<rparr>"

section \<open>The document store and the console\<close>

text \<open>
  The Firestore client is external.  Modelled from the spec: the store holds documents
  by reference, a read returns the document stored under the reference or reports it
  missing, a merge-write creates a missing document and changes the named fields only,
  and the update of \<open>totals\<close> replaces that field as a whole.  \<open>docs\<close> holds the plan and
  day documents, the documents that the code modelled here reads back; writes to other
  documents and collections appear in \<open>trace\<close> only.  Failures are scripted: every read
  takes the next entry of \<open>reads\<close> and every write the next entry of \<open>writes\<close> (a
  failure or success), and an exhausted script answers with success.  Every call is
  appended to \<open>trace\<close>.  A document reference is the list of its path segments.
\<close>

datatype sdk_call =
    GetDoc "jsval list"
  | SetDoc "jsval list" jsval
  | SetDocMerge "jsval list" jsval
  | UpdateDoc "jsval list" jsval
  | UpdateTotals "jsval list" "(string \<times> jsnum) list"
  | AddDoc "jsval list" jsval

record world =
  docs :: "jsval list \<rightharpoonup> doc"
  reads :: "js_error option list"
  writes :: "js_error option list"
  trace :: "sdk_call list"
  console :: "(string \<times> string) list"
  timers :: "int list"

type_synonym 'a io = "world \<Rightarrow> (js_error + 'a) \<times> world"

definition return :: "'a \<Rightarrow> 'a io" where
  "return x w = (Inr x, w)"

definition throw :: "js_error \<Rightarrow> 'a io" where
  "throw e w = (Inl e, w)"

text \<open>Sequencing of awaited calls: an error skips what follows.\<close>

definition bind :: "'a io \<Rightarrow> ('a \<Rightarrow> 'b io) \<Rightarrow> 'b io" where
  "bind m f w = (case m w of (Inl e, w1) \<Rightarrow> (Inl e, w1) | (Inr x, w1) \<Rightarrow> f x w1)"

text \<open>\<open>try { m } catch (err) { h err }\<close>\<close>

definition try_catch :: "'a io \<Rightarrow> (js_error \<Rightarrow> 'a io) \<Rightarrow> 'a io" where
  "try_catch m h w = (case m w of (Inl e, w1) \<Rightarrow> h e w1 | (Inr x, w1) \<Rightarrow> (Inr x, w1))"

definition console_out :: "string \<Rightarrow> string \<Rightarrow> unit io" where
  "console_out level msg w = (Inr (), w\<lparr>console := console w @ [(level, msg)]\<rparr>)"

definition setTimeout :: "int \<Rightarrow> unit io" where
  "setTimeout ms w = (Inr (), w\<lparr>timers := timers w @ [ms]\<rparr>)"

definition getDoc :: "jsval list \<Rightarrow> doc option io" where
  "getDoc ref w =
     (let w1 = w\<lparr>trace := trace w @ [GetDoc ref]\<rparr>
      in case reads w of
           [] \<Rightarrow> (Inr (docs w ref), w1)
         | None # rs \<Rightarrow> (Inr (docs w ref), w1\<lparr>reads := rs\<rparr>)
         | Some e # rs \<Rightarrow> (Inl e, w1\<lparr>reads := rs\<rparr>))"

definition write_call :: "sdk_call \<Rightarrow> unit io" where
  "write_call c w =
     (let w1 = w\<lparr>trace := trace w @ [c]\<rparr>
      in case writes w of
           [] \<Rightarrow> (Inr (), w1)
         | None # fs \<Rightarrow> (Inr (), w1\<lparr>writes := fs\<rparr>)
         | Some e # fs \<Rightarrow> (Inl e, w1\<lparr>writes := fs\<rparr>))"

definition setDoc_merge :: "jsval list \<Rightarrow> jsval \<Rightarrow> unit io" where
  "setDoc_merge ref data = write_call (SetDocMerge ref data)"

definition updateDoc :: "jsval list \<Rightarrow> jsval \<Rightarrow> unit io" where
  "updateDoc ref data = write_call (UpdateDoc ref data)"

definition addDoc :: "jsval list \<Rightarrow> jsval \<Rightarrow> unit io" where
  "addDoc ref data = write_call (AddDoc ref data)"

text \<open>
  What a write that succeeded leaves in the store: the document under \<open>ref\<close>, or an
  empty one when it is missing, with the written fields changed.
\<close>

definition merge_into :: "jsval list \<Rightarrow> (doc \<Rightarrow> doc) \<Rightarrow> unit io" where
  "merge_into ref change w =
     (Inr (), w\<lparr>docs := (docs w)(ref \<mapsto> change (case docs w ref of
                                                      None \<Rightarrow> empty_doc
                                                    | Some d \<Rightarrow> d))\<rparr>)"

text \<open>
  \<open>setDoc(dayRef, data, {merge: true})\<close> on a day document: the call with the data that
  the code passes, and the change of the stored fields that the data stands for.
\<close>

definition setDoc_merge_day :: "jsval list \<Rightarrow> jsval \<Rightarrow> (doc \<Rightarrow> doc) \<Rightarrow> unit io" where
  "setDoc_merge_day ref data change =
     bind (setDoc_merge ref data) (\<lambda>_. merge_into ref change)"

text \<open>
  \<open>updateDoc(dayRef, {totals})\<close>.  The percentages are doubles, NaN and the infinities
  included, which a number of \<open>jsval\<close> cannot hold, so the call has a trace entry of its
  own.  The recalculation updates only a document that it has just read.
\<close>

definition updateDoc_totals :: "jsval list \<Rightarrow> (string \<times> jsnum) list \<Rightarrow> unit io" where
  "updateDoc_totals ref t =
     bind (write_call (UpdateTotals ref t)) (\<lambda>_. merge_into ref (\<lambda>d. d\<lparr>totals := Some t\<rparr>))"

section \<open>Retry wrapper (scripts/data.js, retryWithBackoff)\<close>

text \<open>
  The warning and the wait \<open>setTimeout(resolve, delay * attempt)\<close> between two attempts.
  The \<open>for\<close> loop from \<open>attempt\<close> on.  The counter \<open>n\<close> is not in the source: it counts
  the invocations of \<open>fn\<close> made so far and is returned beside the outcome.  A loop that
  never runs returns undefined (None).
\<close>

definition backoff :: "int \<Rightarrow> int \<Rightarrow> int \<Rightarrow> world \<Rightarrow> world" where
  "backoff maxAttempts delay attempt w =
     snd (setTimeout (delay * attempt)
       (snd (console_out ''warn''
          (''[Data] Retry attempt '' @ string_of_int attempt @ ''/'' @
           string_of_int maxAttempts @ '' after error:'') w)))"

function retry_from ::
  "'a io \<Rightarrow> int \<Rightarrow> int \<Rightarrow> int \<Rightarrow> nat \<Rightarrow> world \<Rightarrow> ((js_error + 'a option) \<times> nat) \<times> world" where
  "retry_from fn maxAttempts delay attempt n w =
     (if attempt \<le> maxAttempts then
        (case fn w of
           (Inr v, w1) \<Rightarrow> ((Inr (Some v), Suc n), w1)
         | (Inl err, w1) \<Rightarrow>
             if attempt = maxAttempts then ((Inl err, Suc n), w1)
             else if err_code err = Some ''permission-denied'' \<or> err_code err = Some ''not-found''
             then ((Inl err, Suc n), w1)
             else retry_from fn maxAttempts delay (attempt + 1) (Suc n)
                    (backoff maxAttempts delay attempt w1))
      else ((Inr None, n), w))"
  by pat_completeness auto
termination
  by (relation "measure (\<lambda>(fn, maxAttempts, delay, attempt, n, w). nat (maxAttempts + 1 - attempt))")
     auto

declare retry_from.simps [simp del]

text \<open>An error is retryable when its code is neither \<open>permission-denied\<close> nor \<open>not-found\<close>.\<close>

definition retryable :: "js_error \<Rightarrow> bool" where
  "retryable err =
     (err_code err \<noteq> Some ''permission-denied'' \<and> err_code err \<noteq> Some ''not-found'')"

definition retryWithBackoff_counted ::
  "'a io \<Rightarrow> int \<Rightarrow> int \<Rightarrow> world \<Rightarrow> ((js_error + 'a option) \<times> nat) \<times> world" where
  "retryWithBackoff_counted fn maxAttempts delay w = retry_from fn maxAttempts delay 1 0 w"

definition retryWithBackoff :: "'a io \<Rightarrow> int \<Rightarrow> int \<Rightarrow> 'a option io" where
  "retryWithBackoff fn maxAttempts delay w =
     (case retryWithBackoff_counted fn maxAttempts delay w of ((r, n), w1) \<Rightarrow> (r, w1))"

section \<open>Audit pipeline (scripts/data.js, audit)\<close>

definition audit_logs_ref :: "jsval \<Rightarrow> jsval list" where
  "audit_logs_ref schoolId = [JStr ''schools'', schoolId, JStr ''audit_logs'']"

definition audit_errors_ref :: "jsval \<Rightarrow> jsval list" where
  "audit_errors_ref schoolId = [JStr ''schools'', schoolId, JStr ''_audit_errors'']"

definition audit_error_record :: "runtime \<Rightarrow> jsval \<Rightarrow> js_error \<Rightarrow> jsval" where
  "audit_error_record rt entry err =
     JObj [(''ts'', serverTimestamp rt),
           (''error'', JStr (err_message err)),
           (''originalEntry'', entry),
           (''stack'', stack rt err)]"

definition audit_record :: "runtime \<Rightarrow> jsval \<Rightarrow> jsval" where
  "audit_record rt sanitized = JObj ((''ts'', serverTimestamp rt) # own_props sanitized)"

text \<open>The handler of the outer \<open>catch\<close>: log, then the fallback write in its own \<open>try\<close>.\<close>

definition audit_fallback :: "runtime \<Rightarrow> jsval \<Rightarrow> jsval \<Rightarrow> js_error \<Rightarrow> unit io" where
  "audit_fallback rt schoolId entry err =
     bind (console_out ''error'' ''[Data] Failed to write audit log:'') (\<lambda>_.
       try_catch
         (addDoc (audit_errors_ref schoolId) (audit_error_record rt entry err))
         (\<lambda>fallbackErr.
            console_out ''error'' ''[Data] Failed to write to audit errors fallback:''))"

definition audit :: "runtime \<Rightarrow> jsval \<Rightarrow> jsval \<Rightarrow> unit io" where
  "audit rt schoolId entry =
     bind (\<lambda>w. (validateDocParams schoolId JNull, w)) (\<lambda>_.
       try_catch
         (bind (\<lambda>w. (validateAuditEntry rt entry, w)) (\<lambda>sanitized.
            addDoc (audit_logs_ref schoolId) (audit_record rt sanitized)))
         (audit_fallback rt schoolId entry))"

section \<open>Day-totals recalculation (scripts/data.js, recalculateDayTotals)\<close>

record acc =
  totalPoints :: jsnum
  totalPossible :: jsnum
  amPoints :: jsnum
  amPossible :: jsnum
  pmPoints :: jsnum
  pmPossible :: jsnum

definition acc0 :: acc where
  "acc0 = \<lparr>totalPoints = Fin 0, totalPossible = Fin 0, amPoints = Fin 0, amPossible = Fin 0,
            pmPoints = Fin 0, pmPossible = Fin 0\<rparr>"

text \<open>\<open>Number(value)\<close> and the truthiness of a value read from the matrix.\<close>

fun Number :: "val \<Rightarrow> jsnum" where
  "Number VUndefined = NaN"
| "Number VNull = Fin 0"
| "Number (VBool b) = Fin (if b then 1 else 0)"
| "Number (VNum n) = n"
| "Number (VOther n t) = n"

fun truthy_val :: "val \<Rightarrow> bool" where
  "truthy_val VUndefined = False"
| "truthy_val VNull = False"
| "truthy_val (VBool b) = b"
| "truthy_val (VNum n) = (n \<noteq> NaN \<and> n \<noteq> Fin 0)"
| "truthy_val (VOther n t) = t"

text \<open>The body of the inner loop (lines 702-727): one period, one goal, the value read.\<close>

definition score_cell :: "period \<Rightarrow> goal \<Rightarrow> val \<Rightarrow> acc \<Rightarrow> acc" where
  "score_cell p g value a =
     (if value \<noteq> VUndefined \<and> value \<noteq> VNull then
        (if goal_kind g = ''stepper'' then
           (let numValue = Number value;
                a1 = a\<lparr>totalPoints := num_add (totalPoints a) numValue,
                        totalPossible := num_add (totalPossible a) (Fin 2)\<rparr>
            in if period_am p
               then a1\<lparr>amPoints := num_add (amPoints a1) numValue,
                        amPossible := num_add (amPossible a1) (Fin 2)\<rparr>
               else a1\<lparr>pmPoints := num_add (pmPoints a1) numValue,
                        pmPossible := num_add (pmPossible a1) (Fin 2)\<rparr>)
         else if goal_kind g = ''checkbox'' then
           (let checkValue = Fin (if truthy_val value then 1 else 0);
                a1 = a\<lparr>totalPoints := num_add (totalPoints a) checkValue,
                        totalPossible := num_add (totalPossible a) (Fin 1)\<rparr>
            in if period_am p
               then a1\<lparr>amPoints := num_add (amPoints a1) checkValue,
                        amPossible := num_add (amPossible a1) (Fin 1)\<rparr>
               else a1\<lparr>pmPoints := num_add (pmPoints a1) checkValue,
                        pmPossible := num_add (pmPossible a1) (Fin 1)\<rparr>)
         else a)
      else a)"

text \<open>
  \<open>periodData = matrix[period.id] || {}\<close>.  An own entry of the matrix is a map, which
  is truthy.  Without an own entry the read finds the member that the matrix inherits
  under that key, and \<open>periodData\<close> is that member when it is truthy; otherwise it is
  the empty object.
\<close>

datatype period_data = Own "string \<rightharpoonup> val" | Inherited string

definition matrix_entry ::
  "builtins \<Rightarrow> (string \<rightharpoonup> (string \<rightharpoonup> val)) \<Rightarrow> period \<Rightarrow> period_data" where
  "matrix_entry b m p =
     (case m (period_id p) of
        Some cells \<Rightarrow> Own cells
      | None \<Rightarrow>
          (case object_member b (period_id p) of
             None \<Rightarrow> Own Map.empty
           | Some v \<Rightarrow> if truthy_val v then Inherited (period_id p) else Own Map.empty))"

text \<open>
  \<open>periodData[goal.id]\<close>: the own property, else the inherited member, else undefined;
  on an inherited \<open>periodData\<close> the read is the engine's.
\<close>

definition read_cell :: "builtins \<Rightarrow> period_data \<Rightarrow> string \<Rightarrow> js_error + val" where
  "read_cell b periodData key =
     (case periodData of
        Own cells \<Rightarrow>
          Inr (case cells key of
                 Some v \<Rightarrow> v
               | None \<Rightarrow> (case object_member b key of None \<Rightarrow> VUndefined | Some v \<Rightarrow> v))
      | Inherited k \<Rightarrow> inherited_member b k key)"

text \<open>\<open>for (const goal of (plan.goals || []))\<close>; a read that throws leaves the loops.\<close>

fun goals_loop ::
  "builtins \<Rightarrow> period \<Rightarrow> period_data \<Rightarrow> goal list \<Rightarrow> acc \<Rightarrow> js_error + acc" where
  "goals_loop b p periodData [] a = Inr a"
| "goals_loop b p periodData (g # gs) a =
     (case read_cell b periodData (goal_id g) of
        Inl e \<Rightarrow> Inl e
      | Inr value \<Rightarrow> goals_loop b p periodData gs (score_cell p g value a))"

text \<open>\<open>for (const period of (plan.schedule || []))\<close>\<close>

fun schedule_loop ::
  "builtins \<Rightarrow> (string \<rightharpoonup> (string \<rightharpoonup> val)) \<Rightarrow> goal list \<Rightarrow> period list \<Rightarrow> acc \<Rightarrow>
   js_error + acc" where
  "schedule_loop b m gs [] a = Inr a"
| "schedule_loop b m gs (p # ps) a =
     (case goals_loop b p (matrix_entry b m p) gs a of
        Inl e \<Rightarrow> Inl e
      | Inr a1 \<Rightarrow> schedule_loop b m gs ps a1)"

text \<open>\<open>possible > 0 ? Math.round((points / possible) * 100) : 0\<close>\<close>

definition percent :: "jsnum \<Rightarrow> jsnum \<Rightarrow> jsnum" where
  "percent points possible =
     (if gt_zero possible then Math_round (num_mul (num_div points possible) (Fin 100))
      else Fin 0)"

text \<open>\<open>plan.planType?.includes('AMPM')\<close>\<close>

definition includes_AMPM :: "string option \<Rightarrow> bool" where
  "includes_AMPM pt = (case pt of None \<Rightarrow> False | Some s \<Rightarrow> sublist ''AMPM'' s)"

text \<open>\<open>dayData.matrix || {}\<close>, \<open>plan.schedule || []\<close> and \<open>plan.goals || []\<close>.\<close>

definition day_matrix :: "doc \<Rightarrow> (string \<rightharpoonup> (string \<rightharpoonup> val))" where
  "day_matrix dayData = (case matrix dayData of None \<Rightarrow> Map.empty | Some mm \<Rightarrow> mm)"

definition plan_schedule :: "doc \<Rightarrow> period list" where
  "plan_schedule plan = (case schedule plan of None \<Rightarrow> [] | Some ps \<Rightarrow> ps)"

definition plan_goals :: "doc \<Rightarrow> goal list" where
  "plan_goals plan = (case goals plan of None \<Rightarrow> [] | Some gs \<Rightarrow> gs)"

text \<open>
  Lines 686-739: the totals object computed from the plan document and the day
  document, as the list of its properties in insertion order.
\<close>

definition totals_of :: "string option \<Rightarrow> acc \<Rightarrow> (string \<times> jsnum) list" where
  "totals_of pt a =
     [(''pct'', percent (totalPoints a) (totalPossible a))] @
     (if includes_AMPM pt
      then [(''amPct'', percent (amPoints a) (amPossible a)),
            (''pmPct'', percent (pmPoints a) (pmPossible a))]
      else [])"

definition dayTotals :: "builtins \<Rightarrow> doc \<Rightarrow> doc \<Rightarrow> js_error + (string \<times> jsnum) list" where
  "dayTotals b plan dayData =
     (case schedule_loop b (day_matrix dayData) (plan_goals plan) (plan_schedule plan) acc0 of
        Inl e \<Rightarrow> Inl e
      | Inr a \<Rightarrow> Inr (totals_of (planType plan) a))"

text \<open>
  The cell of period \<open>p\<close> and goal \<open>g\<close> as the recalculation reads it, and as the day
  holds it: an own property of the matrix.  A goal is scored when it is of one of the two
  kinds of the recalculation.  A cell is graded when the day holds for it a value that
  is neither undefined nor null and its goal is scored; it has full marks when, if it is
  graded, it holds 2 for a stepper goal and true for a checkbox goal.
\<close>

definition cell_read :: "builtins \<Rightarrow> doc \<Rightarrow> period \<Rightarrow> goal \<Rightarrow> js_error + val" where
  "cell_read b dayData p g = read_cell b (matrix_entry b (day_matrix dayData) p) (goal_id g)"

definition own_cell :: "doc \<Rightarrow> period \<Rightarrow> goal \<Rightarrow> val option" where
  "own_cell dayData p g =
     (case day_matrix dayData (period_id p) of None \<Rightarrow> None | Some cells \<Rightarrow> cells (goal_id g))"

definition scored :: "goal \<Rightarrow> bool" where
  "scored g = (goal_kind g = ''stepper'' \<or> goal_kind g = ''checkbox'')"

definition graded :: "doc \<Rightarrow> period \<Rightarrow> goal \<Rightarrow> bool" where
  "graded dayData p g =
     (scored g \<and> own_cell dayData p g \<noteq> None \<and> own_cell dayData p g \<noteq> Some VUndefined \<and>
      own_cell dayData p g \<noteq> Some VNull)"

definition full_marks :: "doc \<Rightarrow> period \<Rightarrow> goal \<Rightarrow> bool" where
  "full_marks dayData p g =
     (graded dayData p g \<longrightarrow>
        (goal_kind g = ''stepper'' \<longrightarrow> own_cell dayData p g = Some (VNum (Fin 2))) \<and>
        (goal_kind g = ''checkbox'' \<longrightarrow> own_cell dayData p g = Some (VBool True)))"

text \<open>No period id and no goal id of the plan names a member that plain objects inherit.\<close>

definition plain_ids :: "builtins \<Rightarrow> doc \<Rightarrow> bool" where
  "plain_ids b plan =
     ((\<forall>p \<in> set (plan_schedule plan). object_member b (period_id p) = None) \<and>
      (\<forall>g \<in> set (plan_goals plan). object_member b (goal_id g) = None))"

text \<open>
  The same two notions for a value that was read, and the invariant of the loops under
  full marks: the points equal the possible points, which are a finite number from 0 to
  \<open>2 ^ 55\<close> (a sum of ones and twos in doubles does not grow beyond it).
\<close>

definition counted :: "goal \<Rightarrow> val \<Rightarrow> bool" where
  "counted g v = (scored g \<and> v \<noteq> VUndefined \<and> v \<noteq> VNull)"

definition full_value :: "goal \<Rightarrow> val \<Rightarrow> bool" where
  "full_value g v =
     (counted g v \<longrightarrow>
        (goal_kind g = ''stepper'' \<longrightarrow> v = VNum (Fin 2)) \<and>
        (goal_kind g = ''checkbox'' \<longrightarrow> v = VBool True))"

definition balanced :: "acc \<Rightarrow> bool" where
  "balanced a =
     (totalPoints a = totalPossible a \<and>
      (case totalPossible a of Fin r \<Rightarrow> 0 \<le> r \<and> r \<le> 2 ^ 55 | _ \<Rightarrow> False))"

text \<open>
  \<open>recalculateDayTotals\<close>: the whole body is inside \<open>try\<close>, and the handler only logs.
\<close>

definition plan_ref :: "jsval \<Rightarrow> jsval \<Rightarrow> jsval list" where
  "plan_ref schoolId planId = [JStr ''schools'', schoolId, JStr ''plans'', planId]"

definition day_ref :: "jsval \<Rightarrow> jsval \<Rightarrow> string \<Rightarrow> jsval list" where
  "day_ref schoolId planId dayKey =
     [JStr ''schools'', schoolId, JStr ''plans'', planId, JStr ''days'', JStr dayKey]"

definition recalculateDayTotals :: "builtins \<Rightarrow> jsval \<Rightarrow> jsval \<Rightarrow> string \<Rightarrow> unit io" where
  "recalculateDayTotals b schoolId planId dayKey =
     try_catch
       (bind (getDoc (plan_ref schoolId planId)) (\<lambda>planDoc.
          case planDoc of
            None \<Rightarrow> console_out ''warn'' ''[Data] Plan not found for recalculation''
          | Some plan \<Rightarrow>
              bind (getDoc (day_ref schoolId planId dayKey)) (\<lambda>dayDoc.
                case dayDoc of
                  None \<Rightarrow> console_out ''warn'' ''[Data] Day not found for recalculation''
                | Some dayData \<Rightarrow>
                    bind (\<lambda>w. (dayTotals b plan dayData, w)) (\<lambda>t.
                    bind (updateDoc_totals (day_ref schoolId planId dayKey) t) (\<lambda>_.
                      console_out ''log'' ''[Data] Totals recalculated:'')))))
       (\<lambda>err. console_out ''error'' ''[Data] Failed to recalculate totals:'')"

text \<open>
  The change that the merge-write of saveMatrixCell stands for.  Modelled from the spec:
  the write sets \<open>matrix[periodId][goalId] = value\<close> by dot-path merge and leaves the
  other cells and fields of the day as they are.  Only a number or a boolean passes the
  check of saveMatrixCell.
\<close>

fun stored_value :: "jsval \<Rightarrow> val" where
  "stored_value (JNum n) = VNum (to_double (of_int n))"
| "stored_value (JBool b) = VBool b"
| "stored_value v = VOther NaN (truthy v)"

definition set_cell :: "string \<Rightarrow> string \<Rightarrow> val \<Rightarrow> doc \<Rightarrow> doc" where
  "set_cell periodId goalId v d =
     d\<lparr>matrix := Some ((day_matrix d)
          (periodId \<mapsto> (case day_matrix d periodId of
                            None \<Rightarrow> Map.empty
                          | Some cells \<Rightarrow> cells)(goalId \<mapsto> v)))\<rparr>"

section \<open>Writers (scripts/data.js)\<close>

text \<open>The string of a value that has passed a \<open>typeof \<dots> === 'string'\<close> test.\<close>

fun str_val :: "jsval \<Rightarrow> string" where
  "str_val (JStr s) = s"
| "str_val v = []"

text \<open>\<open>{...ctx, k1: v1, \<dots>}\<close>: the own properties of \<open>ctx\<close>, then the assignments in order.\<close>

fun spread_with :: "(string \<times> jsval) list \<Rightarrow> (string \<times> jsval) list \<Rightarrow> (string \<times> jsval) list" where
  "spread_with props [] = props"
| "spread_with props ((k, v) # kvs) = spread_with (set_prop props k v) kvs"

text \<open>
  The three writers of a day document.  The comments and \<open>lastModified\<close> are not among
  the fields of \<open>doc\<close>, so the write of a comment changes none of them.
\<close>

definition saveMatrixCell ::
  "runtime \<Rightarrow> builtins \<Rightarrow> jsval \<Rightarrow> jsval \<Rightarrow> string \<Rightarrow> string \<Rightarrow> string \<Rightarrow> jsval \<Rightarrow> jsval \<Rightarrow>
   unit io" where
  "saveMatrixCell rt b schoolId planId dayKey periodId goalId value ctx =
     bind (\<lambda>w. (validateDocParams schoolId planId, w)) (\<lambda>_.
       if dayKey = [] \<or> periodId = [] \<or> goalId = []
       then throw (Error ''Missing required parameters'')
       else if typeof value \<noteq> ''number'' \<and> typeof value \<noteq> ''boolean''
       then throw (Error ''Value must be a number or boolean'')
       else if \<not> truthy ctx \<or> \<not> truthy (get_prop ctx ''actedBy'')
       then throw (Error ''Audit context is required'')
       else
         try_catch
           (bind (console_out ''log'' ''[Data] Saving matrix cell:'') (\<lambda>_.
            bind (retryWithBackoff
                    (setDoc_merge_day (day_ref schoolId planId dayKey)
                       (JObj [(''matrix.'' @ periodId @ ''.'' @ goalId, value),
                              (''lastModified'', serverTimestamp rt)])
                       (set_cell periodId goalId (stored_value value)))
                    MAX_RETRY_ATTEMPTS RETRY_DELAY) (\<lambda>_.
            bind (recalculateDayTotals b schoolId planId dayKey) (\<lambda>_.
            bind (audit rt schoolId
                    (JObj (spread_with (own_props ctx)
                       [(''action'', JStr ''matrix_cell_update''),
                        (''target'', JStr (str_val planId @ ''/'' @ dayKey)),
                        (''details'', JObj [(''periodId'', JStr periodId),
                                            (''goalId'', JStr goalId),
                                            (''value'', value)])]))) (\<lambda>_.
            console_out ''log'' ''[Data] Matrix cell saved successfully'')))))
           (\<lambda>err.
              bind (console_out ''error'' ''[Data] Failed to save matrix cell:'') (\<lambda>_.
                throw (Error (''Failed to save matrix cell: '' @ err_message err)))))"

definition saveComment ::
  "runtime \<Rightarrow> jsval \<Rightarrow> jsval \<Rightarrow> string \<Rightarrow> jsval \<Rightarrow> jsval \<Rightarrow> jsval \<Rightarrow> unit io" where
  "saveComment rt schoolId planId dayKey role text ctx =
     bind (\<lambda>w. (validateDocParams schoolId planId, w)) (\<lambda>_.
       if \<not> truthy role \<or> typeof role \<noteq> ''string''
       then throw (Error ''Invalid role parameter'')
       else if typeof text \<noteq> ''string''
       then throw (Error ''Comment text must be a string'')
       else if \<not> truthy ctx \<or> \<not> truthy (get_prop ctx ''actedBy'')
       then throw (Error ''Audit context is required'')
       else
         try_catch
           (bind (console_out ''log'' ''[Data] Saving comment:'') (\<lambda>_.
            bind (retryWithBackoff
                    (setDoc_merge_day (day_ref schoolId planId dayKey)
                       (JObj (set_prop [(''lastModified'', serverTimestamp rt)]
                          (if role = JStr ''teacher'' then ''comments.teacher''
                           else ''comments.specials.'' @ str_val role) text))
                       (\<lambda>d. d))
                    MAX_RETRY_ATTEMPTS RETRY_DELAY) (\<lambda>_.
            bind (audit rt schoolId
                    (JObj (spread_with (own_props ctx)
                       [(''action'', JStr ''comment_save''),
                        (''target'', JStr (str_val planId @ ''/'' @ dayKey)),
                        (''details'', JObj [(''role'', role),
                                            (''textLength'', JNum (int (length (str_val text))))])]))) (\<lambda>_.
            console_out ''log'' ''[Data] Comment saved successfully''))))
           (\<lambda>err.
              bind (console_out ''error'' ''[Data] Failed to save comment:'') (\<lambda>_.
                throw (Error (''Failed to save comment: '' @ err_message err)))))"

text \<open>
  \<open>logCustomIncident\<close>.  The two readings of \<open>Date.now()\<close> and the random suffix
  \<open>Math.random().toString(36).substr(2, 9)\<close> are given by the caller of the model.
\<close>

definition logCustomIncident ::
  "runtime \<Rightarrow> int \<Rightarrow> string \<Rightarrow> int \<Rightarrow>
   jsval \<Rightarrow> jsval \<Rightarrow> string \<Rightarrow> jsval \<Rightarrow> jsval \<Rightarrow> jsval \<Rightarrow> jsval \<Rightarrow> unit io" where
  "logCustomIncident rt now_id random now_ts schoolId planId dayKey button note source ctx =
     bind (\<lambda>w. (validateDocParams schoolId planId, w)) (\<lambda>_.
       if \<not> truthy button \<or> \<not> truthy (get_prop button ''label'')
       then throw (Error ''Invalid button object'')
       else if \<not> truthy source \<or> (source \<noteq> JStr ''teacher'' \<and> source \<noteq> JStr ''specials'')
       then throw (Error ''Source must be \"teacher\" or \"specials\"'')
       else if \<not> truthy ctx \<or> \<not> truthy (get_prop ctx ''actedBy'')
       then throw (Error ''Audit context is required'')
       else
         try_catch
           (bind (console_out ''log'' ''[Data] Logging incident:'') (\<lambda>_.
            let incident = JObj
                  [(''id'', JStr (''inc_'' @ string_of_int now_id @ ''_'' @ random)),
                   (''label'', get_prop button ''label''),
                   (''colorHex'', if truthy (get_prop button ''colorHex'')
                                  then get_prop button ''colorHex'' else JStr ''#000000''),
                   (''note'', if truthy note then note else JNull),
                   (''ts'', JNum now_ts),
                   (''source'', source)]
            in
            bind (getDoc (day_ref schoolId planId dayKey)) (\<lambda>dayDoc.
            let currentIncidents =
                  (case dayDoc of
                     None \<Rightarrow> []
                   | Some d \<Rightarrow> (case incidents d of None \<Rightarrow> [] | Some xs \<Rightarrow> xs))
            in
            bind (retryWithBackoff
                    (setDoc_merge_day (day_ref schoolId planId dayKey)
                       (JObj [(''incidents'', JArr (currentIncidents @ [incident])),
                              (''lastModified'', serverTimestamp rt)])
                       (\<lambda>d. d\<lparr>incidents := Some (currentIncidents @ [incident])\<rparr>))
                    MAX_RETRY_ATTEMPTS RETRY_DELAY) (\<lambda>_.
            bind (audit rt schoolId
                    (JObj (spread_with (own_props ctx)
                       [(''action'', JStr ''incident_log''),
                        (''target'', JStr (str_val planId @ ''/'' @ dayKey)),
                        (''details'', JObj [(''label'', get_prop button ''label''),
                                            (''source'', source),
                                            (''hasNote'', JBool (truthy note))])]))) (\<lambda>_.
            console_out ''log'' ''[Data] Incident logged successfully'')))))
           (\<lambda>err.
              bind (console_out ''error'' ''[Data] Failed to log incident:'') (\<lambda>_.
                throw (Error (''Failed to log incident: '' @ err_message err)))))"

definition setTheme :: "runtime \<Rightarrow> jsval \<Rightarrow> jsval \<Rightarrow> unit io" where
  "setTheme rt schoolId theme =
     bind (\<lambda>w. (validateDocParams schoolId JNull, w)) (\<lambda>_.
       if \<not> truthy theme \<or> typeof theme \<noteq> ''object''
       then throw (Error ''Invalid theme object'')
       else
         try_catch
           (bind (console_out ''log'' ''[Data] Updating school theme'') (\<lambda>_.
            bind (retryWithBackoff
                    (updateDoc [JStr ''schools'', schoolId]
                       (JObj [(''theme'', theme), (''lastModified'', serverTimestamp rt)]))
                    MAX_RETRY_ATTEMPTS RETRY_DELAY) (\<lambda>_.
            console_out ''log'' ''[Data] Theme updated successfully'')))
           (\<lambda>err.
              bind (console_out ''error'' ''[Data] Failed to set theme:'') (\<lambda>_.
                throw (Error (''Failed to set theme: '' @ err_message err)))))"

section \<open>Auth and imitation context (scripts/auth.js)\<close>

record user =
  user_uid :: string

record claims =
  claims_roles :: "string list option"
  claims_schoolId :: "string option"

record imitation =
  im_targetUid :: string
  im_asRole :: string
  im_startTime :: int

text \<open>
  The module-level variables of auth.js, the durable \<open>localStorage\<close> of the browser and
  the events dispatched on \<open>window\<close>.
\<close>

record auth =
  currentUser :: "user option"
  currentClaims :: "claims option"
  imitationState :: "imitation option"
  localStorage :: "string \<rightharpoonup> string"
  events :: "(string \<times> imitation option) list"

definition IMITATION_STORAGE_KEY :: string where
  "IMITATION_STORAGE_KEY = ''imitation''"

definition DEFAULT_SCHOOL_ID :: string where
  "DEFAULT_SCHOOL_ID = ''school_001''"

definition imitation_object :: "imitation \<Rightarrow> jsval" where
  "imitation_object im =
     JObj [(''targetUid'', JStr (im_targetUid im)),
           (''asRole'', JStr (im_asRole im)),
           (''startTime'', JNum (im_startTime im))]"

text \<open>\<open>currentClaims?.roles?.includes('admin')\<close>\<close>

definition is_admin :: "auth \<Rightarrow> bool" where
  "is_admin s =
     (case currentClaims s of
        None \<Rightarrow> False
      | Some c \<Rightarrow> (case claims_roles c of None \<Rightarrow> False | Some rs \<Rightarrow> ''admin'' \<in> set rs))"

text \<open>\<open>currentClaims?.schoolId || DEFAULT_SCHOOL_ID\<close>\<close>

definition claimed_school :: "auth \<Rightarrow> string" where
  "claimed_school s =
     (case currentClaims s of
        None \<Rightarrow> DEFAULT_SCHOOL_ID
      | Some c \<Rightarrow>
          (case claims_schoolId c of
             None \<Rightarrow> DEFAULT_SCHOOL_ID
           | Some sid \<Rightarrow> if sid = [] then DEFAULT_SCHOOL_ID else sid))"

text \<open>\<open>auditImitation\<close>: a failed write is logged and never thrown.\<close>

definition auditImitation :: "runtime \<Rightarrow> string \<Rightarrow> (string \<times> jsval) list \<Rightarrow> unit io" where
  "auditImitation rt school entry =
     try_catch
       (addDoc (audit_logs_ref (JStr school)) (JObj ((''ts'', serverTimestamp rt) # entry)))
       (\<lambda>err. console_out ''error'' ''[Auth] Failed to write imitation audit log:'')"

text \<open>\<open>startImitate\<close>; \<open>now\<close> is the reading of \<open>Date.now()\<close>.\<close>

definition startImitate ::
  "runtime \<Rightarrow> int \<Rightarrow> jsval \<Rightarrow> jsval \<Rightarrow> auth \<times> world \<Rightarrow> (js_error + unit) \<times> auth \<times> world" where
  "startImitate rt now targetUid asRole sw =
     (case sw of (s, w) \<Rightarrow>
        if \<not> is_admin s then
          (Inl (Error ''Insufficient permissions: admin role required''), s,
           snd (console_out ''error'' ''[Auth] Only admins can imitate'' w))
        else if \<not> truthy targetUid \<or> typeof targetUid \<noteq> ''string'' then
          (Inl (Error ''Invalid targetUid: must be a non-empty string''), s, w)
        else if \<not> truthy asRole \<or> typeof asRole \<noteq> ''string'' then
          (Inl (Error ''Invalid asRole: must be a non-empty string''), s, w)
        else
          (let startTime = now;
               im = \<lparr>im_targetUid = str_val targetUid, im_asRole = str_val asRole,
                     im_startTime = startTime\<rparr>;
               s1 = s\<lparr>imitationState := Some im,
                      localStorage := (localStorage s)
                        (IMITATION_STORAGE_KEY \<mapsto> JSON_stringify rt (imitation_object im)),
                      events := events s @ [(''imitation-active'', Some im)]\<rparr>;
               w1 = snd (try_catch
                      (case currentUser s1 of
                         None \<Rightarrow> throw (TypeError ''Cannot read properties of null (reading 'uid')'')
                       | Some u \<Rightarrow>
                           auditImitation rt (claimed_school s1)
                             [(''action'', JStr ''imitation_started''),
                              (''actorId'', JStr (user_uid u)),
                              (''targetId'', targetUid),
                              (''role'', asRole),
                              (''details'', JObj [(''targetUid'', targetUid),
                                                  (''asRole'', asRole),
                                                  (''startTime'', JStr (toISOString rt startTime))])])
                      (\<lambda>err. console_out ''error'' ''[Auth] Failed to audit imitation start:'') w)
           in (Inr (), s1, snd (console_out ''log'' ''[Auth] Imitation started:'' w1))))"

text \<open>
  \<open>refreshClaims\<close>; \<open>tokenResult\<close> is what \<open>user.getIdTokenResult(forceRefresh)\<close>
  resolves to or rejects with.
\<close>

definition refreshClaims ::
  "js_error + claims \<Rightarrow> auth \<times> world \<Rightarrow> (js_error + claims) \<times> auth \<times> world" where
  "refreshClaims tokenResult sw =
     (case sw of (s, w) \<Rightarrow>
        (case currentUser s of
           None \<Rightarrow> (Inl (Error ''No authenticated user''), s, w)
         | Some u \<Rightarrow>
             (case tokenResult of
                Inl err \<Rightarrow>
                  (Inl err, s, snd (console_out ''error'' ''[Auth] Failed to refresh claims:'' w))
              | Inr c \<Rightarrow>
                  (Inr c, s\<lparr>currentClaims := Some c\<rparr>,
                   snd (console_out ''log'' ''[Auth] Claims refreshed'' w)))))"

text \<open>\<open>getAuditContext\<close>; \<open>claims?.roles?.[0] || 'unknown'\<close> is the first role when it is a
  non-empty string.\<close>

definition first_role :: "claims option \<Rightarrow> string" where
  "first_role cl =
     (case cl of
        None \<Rightarrow> ''unknown''
      | Some c \<Rightarrow>
          (case claims_roles c of
             None \<Rightarrow> ''unknown''
           | Some [] \<Rightarrow> ''unknown''
           | Some (r # rs) \<Rightarrow> if r = [] then ''unknown'' else r))"

definition getAuditContext :: "auth \<Rightarrow> js_error + jsval" where
  "getAuditContext s =
     (case currentUser s of
        None \<Rightarrow> Inl (Error ''No authenticated user for audit context'')
      | Some u \<Rightarrow>
          (case imitationState s of
             Some im \<Rightarrow>
               Inr (JObj [(''actedBy'', JStr (user_uid u)),
                          (''asRole'', JStr (im_asRole im)),
                          (''asUserId'', JStr (im_targetUid im))])
           | None \<Rightarrow>
               Inr (JObj [(''actedBy'', JStr (user_uid u)),
                          (''asRole'', JStr (first_role (currentClaims s))),
                          (''asUserId'', JStr (user_uid u))])))"

section \<open>A concrete runtime and concrete inputs\<close>

text \<open>
  \<open>json\<close> follows \<open>JSON.stringify\<close> on trees whose strings are ASCII: a property whose
  value is undefined is left out, an undefined array element prints as null, and in a
  string the quote, the backslash and the control characters are escaped.
\<close>

definition json_escape :: "char \<Rightarrow> string" where
  "json_escape c =
     (let n = (of_char c :: nat)
      in if n = 34 then [CHR 0x5C, CHR 0x22]
         else if n = 92 then [CHR 0x5C, CHR 0x5C]
         else if n = 8 then [CHR 0x5C, CHR ''b'']
         else if n = 9 then [CHR 0x5C, CHR ''t'']
         else if n = 10 then [CHR 0x5C, CHR ''n'']
         else if n = 12 then [CHR 0x5C, CHR ''f'']
         else if n = 13 then [CHR 0x5C, CHR ''r'']
         else if n < 32 then [CHR 0x5C, CHR ''u'', CHR ''0'', CHR ''0'',
                              digit_char (n div 16), digit_char (n mod 16)]
         else [c])"

definition json_string :: "string \<Rightarrow> string" where
  "json_string s = [CHR 0x22] @ concat (map json_escape s) @ [CHR 0x22]"

fun join_commas :: "string list \<Rightarrow> string" where
  "join_commas [] = []"
| "join_commas [x] = x"
| "join_commas (x # y # ys) = x @ '','' @ join_commas (y # ys)"

fun json :: "jsval \<Rightarrow> string"
  and json_members :: "(string \<times> jsval) list \<Rightarrow> string list"
  and json_elements :: "jsval list \<Rightarrow> string list"
where
  "json JUndefined = ''null''"
| "json JNull = ''null''"
| "json (JBool b) = (if b then ''true'' else ''false'')"
| "json (JNum n) = string_of_int n"
| "json (JStr s) = json_string s"
| "json (JArr xs) = ''['' @ join_commas (json_elements xs) @ '']''"
| "json (JObj kvs) = ''{'' @ join_commas (json_members kvs) @ ''}''"
| "json_members [] = []"
| "json_members ((k, v) # kvs) =
     (if v = JUndefined then json_members kvs
      else (json_string k @ '':'' @ json v) # json_members kvs)"
| "json_elements [] = []"
| "json_elements (x # xs) = json x # json_elements xs"

definition demo_runtime :: runtime where
  "demo_runtime =
     \<lparr>JSON_stringify = json,
      stack = (\<lambda>err. JStr (''Error: '' @ err_message err)),
      serverTimestamp = JObj [(''_methodName'', JStr ''serverTimestamp'')],
      toISOString = string_of_int\<rparr>"

definition world0 :: world where
  "world0 =
     \<lparr>docs = Map.empty, reads = [], writes = [], trace = [], console = [], timers = []\<rparr>"

text \<open>
  Built-ins for the concrete inputs: a plain object inherits the members of
  \<open>Object.prototype\<close> of the language standard, each a function or, under \<open>__proto__\<close>,
  the prototype object itself: truthy values of which \<open>Number\<close> is NaN.  What a read on
  such a member yields varies with the member and the engine; no input below reaches
  such a read, and this instance answers undefined.
\<close>

definition Object_prototype_keys :: "string list" where
  "Object_prototype_keys =
     [''constructor'', ''hasOwnProperty'', ''isPrototypeOf'', ''propertyIsEnumerable'',
      ''toLocaleString'', ''toString'', ''valueOf'', ''__proto__'', ''__defineGetter__'',
      ''__defineSetter__'', ''__lookupGetter__'', ''__lookupSetter__'']"

definition demo_builtins :: builtins where
  "demo_builtins =
     \<lparr>object_member =
        (\<lambda>key. if key \<in> set Object_prototype_keys then Some (VOther NaN True) else None),
      inherited_member = (\<lambda>k key. Inr VUndefined)\<rparr>"



definition empty_day :: doc where
  "empty_day = empty_doc"

text \<open>
  A plan whose only goal is a checkbox with the id \<open>toString\<close>; a plan with a stepper
  goal \<open>G1\<close> and a stepper goal with the id \<open>toString\<close>, and a day whose matrix holds
  the single cell \<open>P1.G1 = 2\<close>.
\<close>

definition toString_plan :: doc where
  "toString_plan =
     empty_doc\<lparr>schedule := Some [\<lparr>period_id = ''P1'', period_am = True\<rparr>],
               goals := Some [\<lparr>goal_id = ''toString'', goal_kind = ''checkbox''\<rparr>]\<rparr>"

definition two_stepper_plan :: doc where
  "two_stepper_plan =
     empty_doc\<lparr>schedule := Some [\<lparr>period_id = ''P1'', period_am = True\<rparr>],
               goals := Some [\<lparr>goal_id = ''G1'', goal_kind = ''stepper''\<rparr>,
                              \<lparr>goal_id = ''toString'', goal_kind = ''stepper''\<rparr>]\<rparr>"

definition single_cell_day :: doc where
  "single_cell_day = empty_doc\<lparr>matrix := Some [''P1'' \<mapsto> [''G1'' \<mapsto> VNum (Fin 2)]]\<rparr>"

text \<open>A store whose first two writes fail with retryable errors.\<close>

definition flaky_world :: world where
  "flaky_world =
     world0\<lparr>writes := [Some (FirebaseError ''unavailable'' ''backend unavailable''),
                        Some (Error ''network down''), None]\<rparr>"

text \<open>A tree with polluting keys and a nested array.\<close>

definition nested_demo :: jsval where
  "nested_demo =
     JObj [(''__proto__'', JObj [(''polluted'', JBool True)]),
           (''a'', JNum 1),
           (''list'', JArr [JStr ''x'', JObj [(''constructor'', JNum 0), (''k'', JNull)]])]"

text \<open>
  An administrator, a teacher, and the state reached when an administrator starts an
  imitation session and the refreshed claims no longer carry the admin role.
\<close>

definition admin_state :: auth where
  "admin_state =
     \<lparr>currentUser = Some \<lparr>user_uid = ''admin_1''\<rparr>,
      currentClaims = Some \<lparr>claims_roles = Some [''admin''],
                             claims_schoolId = Some ''school_001''\<rparr>,
      imitationState = None, localStorage = Map.empty, events = []\<rparr>"

definition teacher_claims :: claims where
  "teacher_claims = \<lparr>claims_roles = Some [''teacher''], claims_schoolId = Some ''school_001''\<rparr>"

definition teacher_state :: auth where
  "teacher_state =
     \<lparr>currentUser = Some \<lparr>user_uid = ''teacher_3''\<rparr>,
      currentClaims = Some teacher_claims,
      imitationState = None, localStorage = Map.empty, events = []\<rparr>"

definition demoted_state :: "auth \<times> world" where
  "demoted_state =
     snd (refreshClaims (Inr teacher_claims)
       (snd (startImitate demo_runtime 1700000000000 (JStr ''teacher_7'') (JStr ''teacher'')
          (admin_state, world0))))"

text \<open>Audit entries with a long string in the details, under a dropped key, and in the target.\<close>

definition filler :: "nat \<Rightarrow> string" where
  "filler n = replicate n (CHR ''a'')"

definition big_details_entry :: jsval where
  "big_details_entry =
     JObj [(''action'', JStr ''matrix_cell_update''), (''actedBy'', JStr ''u1''),
           (''details'', JObj [(''note'', JStr (filler 5000))])]"

definition polluted_details_entry :: jsval where
  "polluted_details_entry =
     JObj [(''action'', JStr ''matrix_cell_update''), (''actedBy'', JStr ''u1''),
           (''details'', JObj [(''constructor'', JStr (filler 5000))])]"

definition big_target_entry :: jsval where
  "big_target_entry =
     JObj [(''action'', JStr ''matrix_cell_update''), (''actedBy'', JStr ''u1''),
           (''target'', JStr (filler 10000))]"

text \<open>An audit entry that owns a property named \<open>hasOwnProperty\<close>.\<close>

definition shadowed_entry :: jsval where
  "shadowed_entry =
     JObj [(''action'', JStr ''matrix_cell_update''), (''actedBy'', JStr ''u1''),
           (''hasOwnProperty'', JNum 1),
           (''details'', JObj [(''note'', JStr (filler 6000))])]"

text \<open>The audit context of a teacher who is not imitating.\<close>

definition teacher_ctx :: jsval where
  "teacher_ctx =
     JObj [(''actedBy'', JStr ''u1''), (''asRole'', JStr ''teacher''), (''asUserId'', JStr ''u1'')]"

section \<open>Properties of the numbers\<close>

text \<open>
  The exponent brackets its argument, and rounding stays between the integers that
  enclose its argument.  A sum of at least 1 and at most \<open>2 ^ 55 + 2\<close> rounds to a finite
  double of at least 1 and at most \<open>2 ^ 55\<close>.
\<close>

lemma ilog2_bounds:
  assumes "0 < x"
  shows "2 powi ilog2 x \<le> x \<and> x < 2 powi (ilog2 x + 1)"
proof (cases "1 \<le> x")
  case True
  define n where "n = \<lfloor>x\<rfloor>"
  have n: "1 \<le> n" using True by (simp add: n_def le_floor_iff)
  then have pos: "0 < n" by simp
  from bitlen_bounds [OF pos]
  have b: "2 ^ nat (bitlen n - 1) \<le> n" "n < 2 ^ nat (bitlen n)" by simp_all
  have k: "1 \<le> bitlen n" using pos by (simp add: bitlen_alt_def)
  have e: "ilog2 x = bitlen n - 1" using True by (simp add: ilog2_def n_def)
  have "(2::rat) powi (bitlen n - 1) = 2 ^ nat (bitlen n - 1)"
    using k by (simp add: power_int_def)
  also have "\<dots> = of_int (2 ^ nat (bitlen n - 1))" by simp
  also have "\<dots> \<le> of_int n" using b(1) by (simp only: of_int_le_iff)
  also have "\<dots> \<le> x" by (simp add: n_def)
  finally have lower: "2 powi ilog2 x \<le> x" by (simp add: e)
  have "n + 1 \<le> 2 ^ nat (bitlen n)" using b(2) by simp
  then have "(of_int (n + 1) :: rat) \<le> of_int (2 ^ nat (bitlen n))"
    by (simp only: of_int_le_iff)
  moreover have "x < of_int (n + 1)" using floor_correct [of x] by (simp add: n_def)
  ultimately have "x < of_int (2 ^ nat (bitlen n))" by simp
  also have "\<dots> = 2 powi (bitlen n)" using k by (simp add: power_int_def)
  finally have "x < 2 powi (ilog2 x + 1)" by (simp add: e)
  with lower show ?thesis by simp
next
  case False
  then have x1: "x < 1" by simp
  define y where "y = 1 / x"
  have y1: "1 < y" using assms x1 by (simp add: y_def)
  define m where "m = \<lceil>y\<rceil> - 1"
  have m: "1 \<le> m" using y1 by (simp add: m_def less_ceiling_iff)
  then have pos: "0 < m" by simp
  from bitlen_bounds [OF pos]
  have b: "2 ^ nat (bitlen m - 1) \<le> m" "m < 2 ^ nat (bitlen m)" by simp_all
  have k: "1 \<le> bitlen m" using pos by (simp add: bitlen_alt_def)
  have e: "ilog2 x = - bitlen m" using False by (simp add: ilog2_def m_def y_def)
  have "y \<le> of_int (m + 1)" using ceiling_correct [of y] by (simp add: m_def)
  also have "(of_int (m + 1) :: rat) \<le> of_int (2 ^ nat (bitlen m))"
    using b(2) by (simp only: of_int_le_iff)
  also have "\<dots> = 2 powi (bitlen m)" using k by (simp add: power_int_def)
  finally have "1 / x \<le> 2 powi (bitlen m)" by (simp add: y_def)
  then have "1 \<le> 2 powi (bitlen m) * x"
    using assms by (simp add: field_simps)
  then have lower: "2 powi (- bitlen m) \<le> x"
    by (simp add: power_int_minus field_simps)
  have "(2::rat) powi (bitlen m - 1) = of_int (2 ^ nat (bitlen m - 1))"
    using k by (simp add: power_int_def)
  also have "\<dots> \<le> of_int m" using b(1) by (simp only: of_int_le_iff)
  also have "\<dots> < y" using ceiling_correct [of y] by (simp add: m_def)
  finally have "2 powi (bitlen m - 1) < 1 / x" by (simp add: y_def)
  then have "2 powi (bitlen m - 1) * x < 1"
    using assms by (simp add: field_simps)
  moreover have "0 < (2::rat) powi (bitlen m - 1)"
    by simp
  ultimately have "x < inverse (2 powi (bitlen m - 1))"
    by (simp add: field_simps)
  then have "x < 2 powi (- (bitlen m - 1))"
    by (simp only: power_int_minus)
  then have "x < 2 powi (ilog2 x + 1)" by (simp add: e)
  with lower show ?thesis by (simp add: e)
qed



lemma round_half_even_between:
  assumes "of_int a \<le> y" and "y \<le> of_int b"
  shows "a \<le> round_half_even y \<and> round_half_even y \<le> b"
proof -
  have lo: "a \<le> \<lfloor>y\<rfloor>" using assms(1) by (simp add: le_floor_iff)
  have hi: "\<lfloor>y\<rfloor> \<le> b" using assms(2) by (simp add: floor_le_iff)
  have up: "\<lfloor>y\<rfloor> + 1 \<le> b" if "of_int \<lfloor>y\<rfloor> < y"
  proof -
    from that assms(2) have "(of_int \<lfloor>y\<rfloor> :: rat) < of_int b" by simp
    then have "\<lfloor>y\<rfloor> < b" by (simp only: of_int_less_iff)
    then show ?thesis by simp
  qed
  show ?thesis
    using lo hi up by (auto simp: round_half_even_def Let_def)
qed

lemma round_half_even_near:
  assumes "of_int n \<le> y" and "y < of_int n + 1 / 2"
  shows "round_half_even y = n"
proof -
  have "\<lfloor>y\<rfloor> = n" using assms by (simp add: floor_eq_iff)
  then show ?thesis using assms by (simp add: round_half_even_def)
qed

lemma to_double_sum_bounded:
  assumes "1 \<le> x" and "x \<le> 2 ^ 55 + 2"
  shows "\<exists>r. to_double x = Fin r \<and> 1 \<le> r \<and> r \<le> 2 ^ 55"
proof -
  define e where "e = ilog2 x"
  have x0: "0 < x" using assms(1) by simp
  from ilog2_bounds [OF x0]
  have b: "2 powi e \<le> x" "x < 2 powi (e + 1)" by (simp_all add: e_def)
  have e0: "0 \<le> e"
  proof (rule ccontr)
    assume "\<not> 0 \<le> e"
    then have "e + 1 \<le> 0" by simp
    then have "(2::rat) powi (e + 1) \<le> 2 powi 0"
      by (rule power_int_increasing) simp
    with b(2) assms(1) show False by simp
  qed
  have e55: "e \<le> 55"
  proof (rule ccontr)
    assume "\<not> e \<le> 55"
    then have "56 \<le> e" by simp
    then have "(2::rat) powi 56 \<le> 2 powi e"
      by (rule power_int_increasing) simp
    with b(1) assms(2) show False by simp
  qed
  define q :: rat where "q = 2 powi (e - 52)"
  have q0: "0 < q" by (simp add: q_def)
  have qe: "2 ^ 52 * q = 2 powi e"
    by (simp add: q_def power_int_diff)
  have qe1: "2 ^ 53 * q = 2 powi (e + 1)"
    by (simp add: q_def power_int_diff power_int_add)
  define y where "y = x / q"
  have y_lo: "2 ^ 52 \<le> y"
    using b(1) q0 qe by (simp add: y_def field_simps)
  have y_hi: "y \<le> 2 ^ 53"
    using b(2) q0 qe1 by (simp add: y_def field_simps)
  define m where "m = round_half_even y"
  have "of_int (2 ^ 52) \<le> y" "y \<le> of_int (2 ^ 53)"
    using y_lo y_hi by simp_all
  then have "2 ^ 52 \<le> m \<and> m \<le> 2 ^ 53"
    unfolding m_def by (rule round_half_even_between)
  then have m: "(2 ^ 52 :: rat) \<le> of_int m" "(of_int m :: rat) \<le> 2 ^ 53"
    by (metis of_int_le_iff of_int_numeral of_int_power)+
  define r where "r = of_int m * q"
  have r_lo: "2 powi e \<le> r"
    using m(1) q0 qe [symmetric] by (simp add: r_def)
  have r_hi: "r \<le> 2 powi (e + 1)"
    using m(2) q0 qe1 [symmetric] by (simp add: r_def)
  have "(2::rat) powi 0 \<le> 2 powi e"
    using e0 by (rule power_int_increasing) simp
  with r_lo have r1: "1 \<le> r" by simp
  have "(2::rat) powi (e + 1) \<le> 2 powi 56"
    using e55 by (intro power_int_increasing) simp_all
  with r_hi have "r \<le> 2 powi 56" by simp
  also have "\<dots> < (2::rat) powi 1024"
    by (rule power_int_strict_increasing) simp_all
  finally have fin: "\<not> 2 powi 1024 \<le> r" by simp
  have td: "to_double x = Fin r"
    using x0 e0 fin
    by (simp add: to_double_def Let_def e_def [symmetric] q_def [symmetric] y_def [symmetric]
          m_def [symmetric] r_def [symmetric] max_def)
  have "r \<le> 2 ^ 55"
  proof (cases "e \<le> 54")
    case True
    then have "(2::rat) powi (e + 1) \<le> 2 powi 55"
      by (intro power_int_increasing) simp_all
    with r_hi show ?thesis by simp
  next
    case False
    with e55 have e: "e = 55" by simp
    then have q8: "q = 8" by (simp add: q_def)
    have "of_int (2 ^ 52) \<le> y" using y_lo by simp
    moreover have "y < of_int (2 ^ 52) + 1 / 2"
      using assms(2) by (simp add: y_def q8)
    ultimately have "m = 2 ^ 52"
      unfolding m_def by (rule round_half_even_near)
    then show ?thesis by (simp add: r_def q8)
  qed
  with td r1 show ?thesis by blast
qed

section \<open>Properties of the recalculation\<close>

lemma to_double_small:
  "to_double 1 = Fin 1" "to_double 2 = Fin 2" "to_double 4 = Fin 4" "to_double 100 = Fin 100"
  by (simp_all add: to_double_def ilog2_def round_half_even_def compute_bitlen Let_def)

lemma Math_round_of_int: "Math_round (Fin (of_int n)) = Fin (of_int n)"
  by (simp add: floor_eq_iff)

lemma Math_round_100: "Math_round (Fin 100) = Fin 100"
  using Math_round_of_int [of 100] by simp

text \<open>
  The quotient and the product are rounded as doubles: 23 points of 40 give
  \<open>57.49999999999999\<close>, which rounds to 57, where the exact value \<open>57.5\<close> would round to
  58.  Without possible points the quotient is not taken: \<open>0 / 0\<close> would be NaN.
\<close>

lemma percent_23_of_40: "percent (Fin 23) (Fin 40) = Fin 57"
  by code_simp

lemma percent_none_possible:
  "percent (Fin 0) (Fin 0) = Fin 0"
  "Math_round (num_mul (num_div (Fin 0) (Fin 0)) (Fin 100)) = NaN"
  by (simp_all add: percent_def)



lemma toString_inherited: "object_member demo_builtins ''toString'' = Some (VOther NaN True)"
  by (simp add: demo_builtins_def Object_prototype_keys_def)

lemma plain_ids_not_inherited:
  "object_member demo_builtins ''P1'' = None" "object_member demo_builtins ''G1'' = None"
  by (simp_all add: demo_builtins_def Object_prototype_keys_def)

subsection \<open>Cells that are read as ungraded, and cells with full marks\<close>

text \<open>
  When every read of a cell of the plan yields undefined or null, or belongs to a goal
  that is not scored, the possible points stay 0 and \<open>pct\<close> is 0.  When every value
  read has full marks and one of them is counted, \<open>pct\<close> is 100.  For a plan whose ids
  name no inherited member the reads are the own cells of the day, so that on such plans
  a day without a graded cell has \<open>pct = 0\<close> and a day with full marks has \<open>pct = 100\<close>.
\<close>

lemma percent_same: "0 < r \<Longrightarrow> percent (Fin r) (Fin r) = Fin 100"
  by (simp add: percent_def to_double_small Math_round_100 del: Math_round.simps)

lemma cell_read_own:
  assumes "object_member b (period_id p) = None" and "object_member b (goal_id g) = None"
  shows "cell_read b d p g = Inr (case own_cell d p g of None \<Rightarrow> VUndefined | Some v \<Rightarrow> v)"
  using assms
  by (simp add: cell_read_def matrix_entry_def read_cell_def own_cell_def split: option.splits)

lemma score_cell_ungraded:
  "v = VUndefined \<or> v = VNull \<or> \<not> scored g \<Longrightarrow> score_cell p g v a = a"
  by (auto simp: score_cell_def scored_def)

lemma goals_loop_ungraded:
  assumes "\<forall>g \<in> set gs. \<exists>v. read_cell b pd (goal_id g) = Inr v \<and>
             (v = VUndefined \<or> v = VNull \<or> \<not> scored g)"
  shows "goals_loop b p pd gs a = Inr a"
  using assms
proof (induction gs)
  case Nil
  show ?case by simp
next
  case (Cons g gs)
  then obtain v where "read_cell b pd (goal_id g) = Inr v"
    "v = VUndefined \<or> v = VNull \<or> \<not> scored g"
    by auto
  with Cons show ?case by (simp add: score_cell_ungraded)
qed

lemma schedule_loop_ungraded:
  assumes "\<forall>p \<in> set ps. \<forall>g \<in> set gs. \<exists>v. cell_read b d p g = Inr v \<and>
             (v = VUndefined \<or> v = VNull \<or> \<not> scored g)"
  shows "schedule_loop b (day_matrix d) gs ps a = Inr a"
  using assms
proof (induction ps)
  case Nil
  show ?case by simp
next
  case (Cons p ps)
  then have "goals_loop b p (matrix_entry b (day_matrix d) p) gs a = Inr a"
    by (intro goals_loop_ungraded) (simp add: cell_read_def)
  with Cons show ?case by simp
qed

lemma ungraded_reads_pct_zero:
  assumes "\<forall>p \<in> set (plan_schedule plan). \<forall>g \<in> set (plan_goals plan).
             \<exists>v. cell_read b dayData p g = Inr v \<and>
                 (v = VUndefined \<or> v = VNull \<or> \<not> scored g)"
  shows "\<exists>t. dayTotals b plan dayData = Inr t \<and> map_of t ''pct'' = Some (Fin 0)"
  using schedule_loop_ungraded [OF assms, of acc0]
  by (simp add: dayTotals_def totals_of_def acc0_def percent_def)

lemma own_reads_ungraded:
  assumes "plain_ids b plan" and "p \<in> set (plan_schedule plan)" and "g \<in> set (plan_goals plan)"
    and "\<not> graded d p g"
  shows "\<exists>v. cell_read b d p g = Inr v \<and> (v = VUndefined \<or> v = VNull \<or> \<not> scored g)"
  using assms
  by (auto simp: plain_ids_def cell_read_own graded_def split: option.splits)

lemma own_cells_ungraded_pct_zero:
  assumes "plain_ids b plan"
    and "\<forall>p \<in> set (plan_schedule plan). \<forall>g \<in> set (plan_goals plan). \<not> graded dayData p g"
  shows "\<exists>t. dayTotals b plan dayData = Inr t \<and> map_of t ''pct'' = Some (Fin 0)"
  using assms by (intro ungraded_reads_pct_zero ballI own_reads_ungraded) simp_all


lemma add_bounded:
  assumes "0 \<le> r" and "r \<le> 2 ^ 55" and "c = 1 \<or> c = 2"
  shows "\<exists>r'. to_double (r + c) = Fin r' \<and> 1 \<le> r' \<and> r' \<le> 2 ^ 55"
  using assms by (intro to_double_sum_bounded) auto

lemma score_cell_full_value:
  assumes "balanced a" and "full_value g v"
  shows "balanced (score_cell p g v a) \<and>
         (gt_zero (totalPossible a) \<or> counted g v \<longrightarrow>
            gt_zero (totalPossible (score_cell p g v a)))"
proof (cases "counted g v")
  case False
  then have "score_cell p g v a = a"
    by (auto simp: counted_def score_cell_def scored_def)
  with assms(1) False show ?thesis by simp
next
  case True
  from assms(1) obtain r where r: "totalPoints a = Fin r" "totalPossible a = Fin r"
    "0 \<le> r" "r \<le> 2 ^ 55"
    by (auto simp: balanced_def split: jsnum.splits)
  show ?thesis
  proof (cases "goal_kind g = ''stepper''")
    case stepper: True
    with True assms(2) have v: "v = VNum (Fin 2)" by (simp add: full_value_def)
    from add_bounded [OF r(3,4), of 2] obtain r' where
      "to_double (r + 2) = Fin r'" "1 \<le> r'" "r' \<le> 2 ^ 55" by auto
    then show ?thesis
      using stepper v r by (simp add: score_cell_def balanced_def Let_def)
  next
    case False
    with True have checkbox: "goal_kind g = ''checkbox''" by (simp add: counted_def scored_def)
    with True assms(2) have v: "v = VBool True" by (simp add: full_value_def)
    from add_bounded [OF r(3,4), of 1] obtain r' where
      "to_double (r + 1) = Fin r'" "1 \<le> r'" "r' \<le> 2 ^ 55" by auto
    then show ?thesis
      using checkbox v r by (simp add: score_cell_def balanced_def Let_def)
  qed
qed

lemma goals_loop_full:
  assumes "balanced a"
    and "\<forall>g \<in> set gs. \<exists>v. read_cell b pd (goal_id g) = Inr v \<and> full_value g v"
  shows "\<exists>a'. goals_loop b p pd gs a = Inr a' \<and> balanced a' \<and>
           (gt_zero (totalPossible a) \<or>
            (\<exists>g \<in> set gs. \<exists>v. read_cell b pd (goal_id g) = Inr v \<and> counted g v) \<longrightarrow>
              gt_zero (totalPossible a'))"
  using assms
proof (induction gs arbitrary: a)
  case Nil
  then show ?case by simp
next
  case (Cons g gs)
  then obtain v where v: "read_cell b pd (goal_id g) = Inr v" "full_value g v"
    by auto
  let ?a = "score_cell p g v a"
  from score_cell_full_value [OF Cons.prems(1) v(2), of p]
  have step: "balanced ?a" "gt_zero (totalPossible a) \<or> counted g v \<longrightarrow> gt_zero (totalPossible ?a)"
    by simp_all
  from Cons.prems(2) have "\<forall>g \<in> set gs. \<exists>v. read_cell b pd (goal_id g) = Inr v \<and> full_value g v"
    by simp
  from Cons.IH [OF step(1) this] obtain a' where a':
    "goals_loop b p pd gs ?a = Inr a'" "balanced a'"
    "gt_zero (totalPossible ?a) \<or>
       (\<exists>g \<in> set gs. \<exists>v. read_cell b pd (goal_id g) = Inr v \<and> counted g v) \<longrightarrow>
     gt_zero (totalPossible a')"
    by blast
  have "goals_loop b p pd (g # gs) a = Inr a'"
    using v(1) a'(1) by simp
  moreover have "gt_zero (totalPossible a')"
    if "gt_zero (totalPossible a) \<or>
        (\<exists>h \<in> set (g # gs). \<exists>v. read_cell b pd (goal_id h) = Inr v \<and> counted h v)"
    using that step(2) a'(3) v(1) by auto
  ultimately show ?case using a'(2) by blast
qed

lemma schedule_loop_full:
  assumes "balanced a"
    and "\<forall>p \<in> set ps. \<forall>g \<in> set gs. \<exists>v. cell_read b d p g = Inr v \<and> full_value g v"
  shows "\<exists>a'. schedule_loop b (day_matrix d) gs ps a = Inr a' \<and> balanced a' \<and>
           (gt_zero (totalPossible a) \<or>
            (\<exists>p \<in> set ps. \<exists>g \<in> set gs. \<exists>v. cell_read b d p g = Inr v \<and> counted g v) \<longrightarrow>
              gt_zero (totalPossible a'))"
  using assms
proof (induction ps arbitrary: a)
  case Nil
  then show ?case by simp
next
  case (Cons p ps)
  let ?pd = "matrix_entry b (day_matrix d) p"
  from Cons.prems(2)
  have "\<forall>g \<in> set gs. \<exists>v. read_cell b ?pd (goal_id g) = Inr v \<and> full_value g v"
    by (simp add: cell_read_def)
  from goals_loop_full [OF Cons.prems(1) this, of p] obtain a1 where a1:
    "goals_loop b p ?pd gs a = Inr a1" "balanced a1"
    "gt_zero (totalPossible a) \<or>
       (\<exists>g \<in> set gs. \<exists>v. read_cell b ?pd (goal_id g) = Inr v \<and> counted g v) \<longrightarrow>
     gt_zero (totalPossible a1)"
    by blast
  from Cons.prems(2)
  have "\<forall>p \<in> set ps. \<forall>g \<in> set gs. \<exists>v. cell_read b d p g = Inr v \<and> full_value g v"
    by simp
  from Cons.IH [OF a1(2) this] obtain a' where a':
    "schedule_loop b (day_matrix d) gs ps a1 = Inr a'" "balanced a'"
    "gt_zero (totalPossible a1) \<or>
       (\<exists>p \<in> set ps. \<exists>g \<in> set gs. \<exists>v. cell_read b d p g = Inr v \<and> counted g v) \<longrightarrow>
     gt_zero (totalPossible a')"
    by blast
  have "schedule_loop b (day_matrix d) gs (p # ps) a = Inr a'"
    using a1(1) a'(1) by simp
  moreover have "gt_zero (totalPossible a')"
    if "gt_zero (totalPossible a) \<or>
        (\<exists>q \<in> set (p # ps). \<exists>g \<in> set gs. \<exists>v. cell_read b d q g = Inr v \<and> counted g v)"
    using that a1(3) a'(3) by (auto simp: cell_read_def)
  ultimately show ?case using a'(2) by blast
qed

lemma full_reads_pct_100:
  assumes "\<forall>p \<in> set (plan_schedule plan). \<forall>g \<in> set (plan_goals plan).
             \<exists>v. cell_read b dayData p g = Inr v \<and> full_value g v"
    and "\<exists>p \<in> set (plan_schedule plan). \<exists>g \<in> set (plan_goals plan).
             \<exists>v. cell_read b dayData p g = Inr v \<and> counted g v"
  shows "\<exists>t. dayTotals b plan dayData = Inr t \<and> map_of t ''pct'' = Some (Fin 100)"
proof -
  have "balanced acc0" by (simp add: balanced_def acc0_def)
  from schedule_loop_full [OF this assms(1)] assms(2) obtain a where a:
    "schedule_loop b (day_matrix dayData) (plan_goals plan) (plan_schedule plan) acc0 = Inr a"
    "balanced a" "gt_zero (totalPossible a)"
    by blast
  from a(2,3) obtain r where "totalPoints a = Fin r" "totalPossible a = Fin r" "0 < r"
    by (auto simp: balanced_def split: jsnum.splits)
  then have "percent (totalPoints a) (totalPossible a) = Fin 100"
    by (simp add: percent_same)
  with a(1) show ?thesis
    by (simp add: dayTotals_def totals_of_def)
qed

lemma own_reads_full:
  assumes "plain_ids b plan" and "p \<in> set (plan_schedule plan)" and "g \<in> set (plan_goals plan)"
    and "full_marks d p g"
  shows "\<exists>v. cell_read b d p g = Inr v \<and> full_value g v"
  using assms
  by (auto simp: plain_ids_def cell_read_own full_marks_def graded_def full_value_def counted_def
      split: option.splits)

lemma own_reads_counted:
  assumes "plain_ids b plan" and "p \<in> set (plan_schedule plan)" and "g \<in> set (plan_goals plan)"
    and "graded d p g"
  shows "\<exists>v. cell_read b d p g = Inr v \<and> counted g v"
  using assms
  by (auto simp: plain_ids_def cell_read_own graded_def counted_def split: option.splits)

lemma own_cells_full_marks_pct_100:
  assumes "plain_ids b plan"
    and "\<forall>p \<in> set (plan_schedule plan). \<forall>g \<in> set (plan_goals plan). full_marks dayData p g"
    and "\<exists>p \<in> set (plan_schedule plan). \<exists>g \<in> set (plan_goals plan). graded dayData p g"
  shows "\<exists>t. dayTotals b plan dayData = Inr t \<and> map_of t ''pct'' = Some (Fin 100)"
proof (rule full_reads_pct_100)
  show "\<forall>p \<in> set (plan_schedule plan). \<forall>g \<in> set (plan_goals plan).
          \<exists>v. cell_read b dayData p g = Inr v \<and> full_value g v"
    using assms(1,2) by (intro ballI own_reads_full) simp_all
  from assms(3) obtain p g where "p \<in> set (plan_schedule plan)" "g \<in> set (plan_goals plan)"
    "graded dayData p g" by blast
  with assms(1) own_reads_counted [of b plan p g dayData]
  show "\<exists>p \<in> set (plan_schedule plan). \<exists>g \<in> set (plan_goals plan).
          \<exists>v. cell_read b dayData p g = Inr v \<and> counted g v"
    by blast
qed

subsection \<open>Ids that name inherited members\<close>

text \<open>
  Claim C6 fails on the code.  The plan has the period \<open>P1\<close> and the checkbox goal with
  the id \<open>toString\<close>, and the day has no matrix, so no cell of the day is graded.  With
  built-ins in which a plain object inherits nothing under \<open>P1\<close> and a function (a
  truthy value) under \<open>toString\<close>, as in every engine, the read
  \<open>periodData["toString"]\<close> on the empty object finds the inherited method, which is
  neither undefined nor null: the recalculation counts one point of one possible point
  and computes \<open>pct = 100\<close>, not 0.
\<close>

theorem empty_day_inherited_goal_pct_100:
  assumes "object_member b ''P1'' = None"
    and "object_member b ''toString'' = Some (VOther n True)"
  shows "matrix empty_day = None \<and>
         dayTotals b toString_plan empty_day = Inr [(''pct'', Fin 100)]"
  using assms
  by (simp add: dayTotals_def toString_plan_def empty_day_def empty_doc_def plan_schedule_def
        plan_goals_def day_matrix_def matrix_entry_def read_cell_def score_cell_def acc0_def
        totals_of_def percent_def includes_AMPM_def to_double_small Let_def Math_round_100
      del: Math_round.simps)

theorem empty_day_inherited_goal_pct_100_witness:
  "matrix empty_day = None \<and>
   dayTotals demo_builtins toString_plan empty_day = Inr [(''pct'', Fin 100)]"
  using empty_day_inherited_goal_pct_100 [of demo_builtins NaN]
  by (simp add: toString_inherited plain_ids_not_inherited)

text \<open>
  Claim C7 fails on the code.  The plan has the period \<open>P1\<close> and two stepper goals, \<open>G1\<close>
  and one with the id \<open>toString\<close>; the matrix of the day holds the single cell
  \<open>P1.G1 = 2\<close>, so the only graded cell has the value 2.  With built-ins in which a
  plain object inherits a function under \<open>toString\<close>, the read of that goal finds the
  inherited method, \<open>Number\<close> of it is NaN, and the recalculation computes \<open>pct = NaN\<close>,
  not 100.
\<close>

theorem full_marks_inherited_goal_pct_NaN:
  assumes "object_member b ''toString'' = Some (VOther NaN True)"
  shows "matrix single_cell_day = Some [''P1'' \<mapsto> [''G1'' \<mapsto> VNum (Fin 2)]] \<and>
         dayTotals b two_stepper_plan single_cell_day = Inr [(''pct'', NaN)]"
  using assms
  by (simp add: dayTotals_def two_stepper_plan_def single_cell_day_def empty_doc_def
        plan_schedule_def plan_goals_def day_matrix_def matrix_entry_def read_cell_def
        score_cell_def acc0_def totals_of_def percent_def includes_AMPM_def to_double_small
        Let_def)

theorem full_marks_inherited_goal_pct_NaN_witness:
  "matrix single_cell_day = Some [''P1'' \<mapsto> [''G1'' \<mapsto> VNum (Fin 2)]] \<and>
   dayTotals demo_builtins two_stepper_plan single_cell_day = Inr [(''pct'', NaN)]"
  using full_marks_inherited_goal_pct_NaN [of demo_builtins]
  by (simp add: toString_inherited)

section \<open>Properties of the retry wrapper\<close>

text \<open>
  Claim C8.  For every operation whose first two invocations fail with retryable errors
  and whose third invocation succeeds with \<open>v\<close>, \<open>retryWithBackoff\<close> with the default
  \<open>maxAttempts = 3\<close> returns \<open>v\<close> after exactly three invocations.  The second and third
  invocations run in the state left by the warning and the wait that follow a failure.
\<close>

theorem retryWithBackoff_third_attempt:
  assumes "fn w0 = (Inl e1, w1)" and "retryable e1"
    and "fn (backoff MAX_RETRY_ATTEMPTS delay 1 w1) = (Inl e2, w2)" and "retryable e2"
    and "fn (backoff MAX_RETRY_ATTEMPTS delay 2 w2) = (Inr v, w3)"
  shows "retryWithBackoff_counted fn MAX_RETRY_ATTEMPTS delay w0 = ((Inr (Some v), 3), w3) \<and>
         retryWithBackoff fn MAX_RETRY_ATTEMPTS delay w0 = (Inr (Some v), w3)"
  using assms
  by (simp add: retryWithBackoff_def retryWithBackoff_counted_def MAX_RETRY_ATTEMPTS_def
        retryable_def retry_from.simps eval_nat_numeral)

theorem retryWithBackoff_third_attempt_witness:
  "retryWithBackoff_counted (setDoc_merge [JStr ''schools''] JNull)
     MAX_RETRY_ATTEMPTS RETRY_DELAY flaky_world =
   ((Inr (Some ()), 3),
    \<lparr>docs = Map.empty, reads = [], writes = [],
     trace = [SetDocMerge [JStr ''schools''] JNull, SetDocMerge [JStr ''schools''] JNull,
              SetDocMerge [JStr ''schools''] JNull],
     console = [(''warn'', ''[Data] Retry attempt 1/3 after error:''),
                (''warn'', ''[Data] Retry attempt 2/3 after error:'')],
     timers = [1000, 2000]\<rparr>)"
  using retryWithBackoff_third_attempt [of "setDoc_merge [JStr ''schools''] JNull" flaky_world
      "FirebaseError ''unavailable'' ''backend unavailable''"
      "snd (setDoc_merge [JStr ''schools''] JNull flaky_world)"
      RETRY_DELAY
      "Error ''network down''"
      "snd (setDoc_merge [JStr ''schools''] JNull
         (backoff MAX_RETRY_ATTEMPTS RETRY_DELAY 1
            (snd (setDoc_merge [JStr ''schools''] JNull flaky_world))))"
      "()"
      "snd (setDoc_merge [JStr ''schools''] JNull
         (backoff MAX_RETRY_ATTEMPTS RETRY_DELAY 2
            (snd (setDoc_merge [JStr ''schools''] JNull
               (backoff MAX_RETRY_ATTEMPTS RETRY_DELAY 1
                  (snd (setDoc_merge [JStr ''schools''] JNull flaky_world)))))))"]
  by (simp add: flaky_world_def world0_def setDoc_merge_def write_call_def backoff_def
        setTimeout_def console_out_def retryable_def MAX_RETRY_ATTEMPTS_def RETRY_DELAY_def
        string_of_int_def string_of_nat.simps digit_char_def Let_def)

section \<open>Properties of the audit pipeline\<close>

lemma validateDocParams_school:
  "truthy schoolId \<Longrightarrow> typeof schoolId = ''string'' \<Longrightarrow>
   validateDocParams schoolId JNull = Inr ()"
  by (simp add: validateDocParams_def)

lemma audit_valid_school:
  "truthy schoolId \<Longrightarrow> typeof schoolId = ''string'' \<Longrightarrow>
   audit rt schoolId entry w =
     try_catch
       (bind (\<lambda>w. (validateAuditEntry rt entry, w)) (\<lambda>sanitized.
          addDoc (audit_logs_ref schoolId) (audit_record rt sanitized)))
       (audit_fallback rt schoolId entry) w"
  by (simp add: audit_def validateDocParams_school bind_def)

lemma write_call_cases:
  "write_call c w =
     (case writes w of
        [] \<Rightarrow> (Inr (), w\<lparr>trace := trace w @ [c]\<rparr>)
      | None # fs \<Rightarrow> (Inr (), w\<lparr>trace := trace w @ [c], writes := fs\<rparr>)
      | Some e # fs \<Rightarrow> (Inl e, w\<lparr>trace := trace w @ [c], writes := fs\<rparr>))"
  by (simp add: write_call_def Let_def split: list.splits option.splits)

lemma audit_fallback_props:
  "fst (audit_fallback rt schoolId entry err w) = Inr ()"
  "trace (snd (audit_fallback rt schoolId entry err w)) =
     trace w @ [AddDoc (audit_errors_ref schoolId) (audit_error_record rt entry err)]"
  "(''error'', ''[Data] Failed to write audit log:'') \<in>
     set (console (snd (audit_fallback rt schoolId entry err w)))"
  by (simp_all add: audit_fallback_def bind_def try_catch_def console_out_def addDoc_def
        write_call_cases split: list.splits option.splits)

lemma audit_invalid_entry:
  assumes "truthy schoolId" and "typeof schoolId = ''string''"
    and "validateAuditEntry rt entry = Inl err"
  shows "audit rt schoolId entry w = audit_fallback rt schoolId entry err w"
  using assms by (simp add: audit_valid_school try_catch_def bind_def)

lemma audit_write_failed:
  assumes "truthy schoolId" and "typeof schoolId = ''string''"
    and "validateAuditEntry rt entry = Inr sanitized" and "writes w = Some err # rest"
  shows "audit rt schoolId entry w =
         audit_fallback rt schoolId entry err
           (w\<lparr>trace := trace w @ [AddDoc (audit_logs_ref schoolId) (audit_record rt sanitized)],
              writes := rest\<rparr>)"
  using assms
  by (simp add: audit_valid_school try_catch_def bind_def addDoc_def write_call_cases)

lemma audit_written:
  assumes "truthy schoolId" and "typeof schoolId = ''string''"
    and "validateAuditEntry rt entry = Inr sanitized"
    and "writes w = [] \<or> (\<exists>rest. writes w = None # rest)"
  shows "fst (audit rt schoolId entry w) = Inr ()"
  using assms
  by (auto simp add: audit_valid_school try_catch_def bind_def addDoc_def write_call_cases)

lemma audit_fallback_console:
  "console (snd (audit_fallback rt schoolId entry err w)) =
     console w @ (''error'', ''[Data] Failed to write audit log:'') #
       (case writes w of
          Some e2 # rest \<Rightarrow> [(''error'', ''[Data] Failed to write to audit errors fallback:'')]
        | _ \<Rightarrow> [])"
  by (simp add: audit_fallback_def bind_def try_catch_def console_out_def addDoc_def
        write_call_cases split: list.splits option.splits)

lemma audit_returns:
  assumes "truthy schoolId" and "typeof schoolId = ''string''"
  shows "fst (audit rt schoolId entry w) = Inr ()"
proof (cases "validateAuditEntry rt entry")
  case (Inl err)
  then show ?thesis
    using assms by (simp add: audit_invalid_entry audit_fallback_props)
next
  case (Inr sanitized)
  show ?thesis
  proof (cases "\<exists>err rest. writes w = Some err # rest")
    case True
    then obtain err rest where "writes w = Some err # rest" by blast
    then show ?thesis
      using assms Inr by (simp add: audit_write_failed audit_fallback_props)
  next
    case False
    then have "writes w = [] \<or> (\<exists>rest. writes w = None # rest)"
      by (cases "writes w") auto
    then show ?thesis
      using assms Inr by (rule audit_written [rotated 3])
  qed
qed

text \<open>
  Claim C1, as amended.  For every \<open>schoolId\<close> that is a non-empty string and every
  entry, \<open>audit\<close> never raises to its caller.  A validation failure is logged and
  followed by one fallback write of the original entry, the message and the stack to the
  error-records collection; a failed write to the audit collection is logged and
  followed by the same fallback write.  In both cases the console receives the first
  message and, exactly when the fallback write fails too, the message of the inner
  handler: the failure of the fallback is only logged.
\<close>

theorem audit_never_raises:
  assumes "truthy schoolId" and "typeof schoolId = ''string''"
  shows "fst (audit rt schoolId entry w) = Inr () \<and>
    (\<forall>err. validateAuditEntry rt entry = Inl err \<longrightarrow>
       trace (snd (audit rt schoolId entry w)) =
         trace w @ [AddDoc (audit_errors_ref schoolId) (audit_error_record rt entry err)] \<and>
       console (snd (audit rt schoolId entry w)) =
         console w @ (''error'', ''[Data] Failed to write audit log:'') #
           (case writes w of
              Some e2 # rest \<Rightarrow>
                [(''error'', ''[Data] Failed to write to audit errors fallback:'')]
            | _ \<Rightarrow> [])) \<and>
    (\<forall>sanitized err rest.
       validateAuditEntry rt entry = Inr sanitized \<and> writes w = Some err # rest \<longrightarrow>
       trace (snd (audit rt schoolId entry w)) =
         trace w @ [AddDoc (audit_logs_ref schoolId) (audit_record rt sanitized),
                    AddDoc (audit_errors_ref schoolId) (audit_error_record rt entry err)] \<and>
       console (snd (audit rt schoolId entry w)) =
         console w @ (''error'', ''[Data] Failed to write audit log:'') #
           (case rest of
              Some e2 # rest2 \<Rightarrow>
                [(''error'', ''[Data] Failed to write to audit errors fallback:'')]
            | _ \<Rightarrow> []))"
proof (intro conjI allI impI)
  show "fst (audit rt schoolId entry w) = Inr ()"
    using assms by (rule audit_returns)
next
  fix err
  assume "validateAuditEntry rt entry = Inl err"
  then have eq: "audit rt schoolId entry w = audit_fallback rt schoolId entry err w"
    using assms by (simp add: audit_invalid_entry)
  show "trace (snd (audit rt schoolId entry w)) =
         trace w @ [AddDoc (audit_errors_ref schoolId) (audit_error_record rt entry err)]"
    by (simp add: eq audit_fallback_props)
  show "console (snd (audit rt schoolId entry w)) =
         console w @ (''error'', ''[Data] Failed to write audit log:'') #
           (case writes w of
              Some e2 # rest \<Rightarrow>
                [(''error'', ''[Data] Failed to write to audit errors fallback:'')]
            | _ \<Rightarrow> [])"
    by (simp only: eq audit_fallback_console)
next
  fix sanitized err rest
  assume "validateAuditEntry rt entry = Inr sanitized \<and> writes w = Some err # rest"
  then have eq: "audit rt schoolId entry w =
         audit_fallback rt schoolId entry err
           (w\<lparr>trace := trace w @ [AddDoc (audit_logs_ref schoolId) (audit_record rt sanitized)],
              writes := rest\<rparr>)"
    using assms by (simp add: audit_write_failed)
  show "trace (snd (audit rt schoolId entry w)) =
         trace w @ [AddDoc (audit_logs_ref schoolId) (audit_record rt sanitized),
                    AddDoc (audit_errors_ref schoolId) (audit_error_record rt entry err)]"
    by (simp add: eq audit_fallback_props)
  show "console (snd (audit rt schoolId entry w)) =
         console w @ (''error'', ''[Data] Failed to write audit log:'') #
           (case rest of
              Some e2 # rest2 \<Rightarrow>
                [(''error'', ''[Data] Failed to write to audit errors fallback:'')]
            | _ \<Rightarrow> [])"
    by (simp add: eq audit_fallback_console)
qed

lemma validateAuditEntry_null:
  "validateAuditEntry rt JNull = Inl (Error ''Audit entry must be an object'')"
  by (simp add: validateAuditEntry_def assemble_entry_def)

theorem audit_never_raises_witness:
  "fst (audit demo_runtime (JStr ''school_001'') JNull
          (world0\<lparr>writes := [Some (FirebaseError ''unavailable'' ''backend unavailable'')]\<rparr>)) =
     Inr () \<and>
   trace (snd (audit demo_runtime (JStr ''school_001'') JNull
          (world0\<lparr>writes := [Some (FirebaseError ''unavailable'' ''backend unavailable'')]\<rparr>))) =
     [AddDoc (audit_errors_ref (JStr ''school_001''))
        (audit_error_record demo_runtime JNull (Error ''Audit entry must be an object''))] \<and>
   console (snd (audit demo_runtime (JStr ''school_001'') JNull
          (world0\<lparr>writes := [Some (FirebaseError ''unavailable'' ''backend unavailable'')]\<rparr>))) =
     [(''error'', ''[Data] Failed to write audit log:''),
      (''error'', ''[Data] Failed to write to audit errors fallback:'')]"
  using audit_never_raises [of "JStr ''school_001''" demo_runtime JNull
      "world0\<lparr>writes := [Some (FirebaseError ''unavailable'' ''backend unavailable'')]\<rparr>"]
  by (simp add: validateAuditEntry_null world0_def)

text \<open>
  Claim C1 as stated fails: with the empty string as \<open>schoolId\<close> the call raises, since
  \<open>validateDocParams\<close> runs before the \<open>try\<close>.
\<close>

theorem audit_never_raises_counterexample:
  "fst (audit demo_runtime (JStr [])
          (JObj [(''action'', JStr ''login''), (''actedBy'', JStr ''u1'')]) world0) =
   Inl (Error ''Invalid schoolId: must be a non-empty string'')"
  by (simp add: audit_def validateDocParams_def bind_def)

section \<open>Properties of the auth context\<close>

text \<open>
  Claim C3.  \<open>getAuditContext\<close> fails when no identity is authenticated; otherwise it
  returns the triple whose \<open>actedBy\<close> is the identifier of the authenticated user and,
  when an imitation session is active, whose \<open>asRole\<close> and \<open>asUserId\<close> are the role and
  the user identifier of the imitated target.
\<close>

theorem getAuditContext_actor:
  "(currentUser s = None \<longrightarrow>
      getAuditContext s = Inl (Error ''No authenticated user for audit context'')) \<and>
   (\<forall>u. currentUser s = Some u \<longrightarrow>
      (\<exists>r i. getAuditContext s =
                Inr (JObj [(''actedBy'', JStr (user_uid u)), (''asRole'', r), (''asUserId'', i)]) \<and>
              (\<forall>im. imitationState s = Some im \<longrightarrow>
                 r = JStr (im_asRole im) \<and> i = JStr (im_targetUid im))))"
  by (auto simp: getAuditContext_def split: option.splits)

lemma demoted_state_eq:
  "fst demoted_state =
     admin_state\<lparr>currentClaims := Some teacher_claims,
       imitationState := Some \<lparr>im_targetUid = ''teacher_7'', im_asRole = ''teacher'',
                                im_startTime = 1700000000000\<rparr>,
       localStorage := [''imitation'' \<mapsto>
         ''{\"targetUid\":\"teacher_7\",\"asRole\":\"teacher\",\"startTime\":1700000000000}''],
       events := [(''imitation-active'',
                   Some \<lparr>im_targetUid = ''teacher_7'', im_asRole = ''teacher'',
                         im_startTime = 1700000000000\<rparr>)]\<rparr>"
  by (simp add: demoted_state_def refreshClaims_def startImitate_def admin_state_def is_admin_def
        demo_runtime_def imitation_object_def IMITATION_STORAGE_KEY_def json_string_def
        json_escape_def string_of_int_def string_of_nat.simps digit_char_def Let_def
        console_out_def try_catch_def auditImitation_def addDoc_def write_call_def world0_def
        claimed_school_def)

theorem getAuditContext_actor_witness:
  "getAuditContext (fst demoted_state) =
     Inr (JObj [(''actedBy'', JStr ''admin_1''), (''asRole'', JStr ''teacher''),
                (''asUserId'', JStr ''teacher_7'')])"
  using getAuditContext_actor [of "fst demoted_state"]
  by (auto simp: demoted_state_eq admin_state_def)

text \<open>
  Claim C9, as amended.  For every identity whose roles do not include admin,
  \<open>startImitate\<close> fails with the permission error before it touches any state: the
  session in memory, the durable storage and the dispatched events are as they were
  before the call, so the call creates and persists no session.
\<close>

theorem startImitate_non_admin:
  "\<not> is_admin s \<Longrightarrow>
   startImitate rt now targetUid asRole (s, w) =
     (Inl (Error ''Insufficient permissions: admin role required''), s,
      w\<lparr>console := console w @ [(''error'', ''[Auth] Only admins can imitate'')]\<rparr>)"
  by (simp add: startImitate_def console_out_def)

theorem startImitate_non_admin_witness:
  "startImitate demo_runtime 1700000000000 (JStr ''teacher_7'') (JStr ''teacher'')
     (teacher_state, world0) =
   (Inl (Error ''Insufficient permissions: admin role required''), teacher_state,
    world0\<lparr>console := [(''error'', ''[Auth] Only admins can imitate'')]\<rparr>) \<and>
   imitationState teacher_state = None \<and> localStorage teacher_state ''imitation'' = None"
  using startImitate_non_admin [of teacher_state demo_runtime 1700000000000
      "JStr ''teacher_7''" "JStr ''teacher''" world0]
  by (simp add: is_admin_def teacher_state_def teacher_claims_def world0_def)

text \<open>
  Claim C9 as stated fails.  An administrator starts a session, the refreshed claims drop
  the admin role, and a second \<open>startImitate\<close> is refused: the earlier session is still
  in memory and in durable storage afterwards.
\<close>

theorem startImitate_non_admin_counterexample:
  "\<not> is_admin (fst demoted_state) \<and>
   fst (startImitate demo_runtime 1700000360000 (JStr ''teacher_8'') (JStr ''teacher'')
          (fst demoted_state, snd demoted_state)) =
     Inl (Error ''Insufficient permissions: admin role required'') \<and>
   imitationState (fst (snd (startImitate demo_runtime 1700000360000 (JStr ''teacher_8'')
          (JStr ''teacher'') (fst demoted_state, snd demoted_state)))) =
     Some \<lparr>im_targetUid = ''teacher_7'', im_asRole = ''teacher'',
           im_startTime = 1700000000000\<rparr> \<and>
   localStorage (fst (snd (startImitate demo_runtime 1700000360000 (JStr ''teacher_8'')
          (JStr ''teacher'') (fst demoted_state, snd demoted_state)))) ''imitation'' =
     Some ''{\"targetUid\":\"teacher_7\",\"asRole\":\"teacher\",\"startTime\":1700000000000}''"
  by (simp add: startImitate_def demoted_state_eq is_admin_def admin_state_def
        teacher_claims_def)

section \<open>Properties of sanitizeObject\<close>

lemma sanitize_value:
  "(if typeof v = ''object'' \<and> v \<noteq> JNull then sanitizeObject v else Inr v) = sanitizeObject v"
  by (cases v) simp_all

lemma sanitize_returns:
  "no_shadowing v \<longrightarrow> (\<exists>r. sanitizeObject v = Inr r)"
  "no_shadowing_props kvs \<longrightarrow> (\<exists>r. sanitize_props False kvs = Inr r)"
  "no_shadowing_elems xs \<longrightarrow> (\<forall>i. \<exists>r. sanitize_elems i xs = Inr r)"
proof (induction v and kvs and xs rule: no_shadowing_no_shadowing_props_no_shadowing_elems.induct)
  case (1 kvs)
  then show ?case by auto
next
  case (2 xs)
  then show ?case by (auto split: sum.splits) (metis sum.distinct(1))
next
  case (9 key "value" rest)
  then show ?case
    by (auto simp: sanitize_value polluting_def split: sum.splits)
next
  case (11 "value" rest)
  then show ?case
    by (auto simp: sanitize_value split: sum.splits) (metis sum.distinct(1))+
qed simp_all

lemma sanitize_props_lookup:
  "sanitize_props sh kvs = Inr r \<Longrightarrow> \<not> polluting k \<Longrightarrow> map_of kvs k = Some x \<Longrightarrow>
   \<exists>x'. sanitizeObject x = Inr x' \<and> map_of r k = Some x'"
proof (induction kvs arbitrary: r)
  case Nil
  then show ?case by simp
next
  case (Cons kv kvs)
  obtain key val where kv: "kv = (key, val)" by (cases kv)
  show ?case
  proof (cases "polluting key")
    case True
    with Cons.prems kv have "sanitize_props sh kvs = Inr r" "map_of kvs k = Some x"
      by (auto simp: polluting_def split: if_splits)
    then show ?thesis using Cons.IH Cons.prems(2) by blast
  next
    case False
    with Cons.prems(1) kv obtain v' r' where
      v': "sanitizeObject val = Inr v'" and r': "sanitize_props sh kvs = Inr r'"
      and r: "r = (key, v') # r'"
      by (auto simp: polluting_def sanitize_value split: if_splits sum.splits)
    show ?thesis
    proof (cases "k = key")
      case True
      with Cons.prems(3) kv have "x = val" by simp
      with True v' r show ?thesis by simp
    next
      case False
      with Cons.prems(3) kv have "map_of kvs k = Some x" by simp
      with Cons.IH [OF r' Cons.prems(2)] obtain x'
        where "sanitizeObject x = Inr x'" "map_of r' k = Some x'"
        by blast
      with False r show ?thesis by simp
    qed
  qed
qed

lemma sanitize_elems_lookup:
  "sanitize_elems i xs = Inr r \<Longrightarrow> map_of (index_props i xs) k = Some x \<Longrightarrow>
   \<exists>x'. sanitizeObject x = Inr x' \<and> map_of r k = Some x'"
proof (induction xs arbitrary: i r)
  case Nil
  then show ?case by simp
next
  case (Cons val xs)
  from Cons.prems(1) obtain v' r' where
    v': "sanitizeObject val = Inr v'" and r': "sanitize_elems (Suc i) xs = Inr r'"
    and r: "r = (string_of_nat i, v') # r'"
    by (auto simp: sanitize_value split: sum.splits)
  show ?case
  proof (cases "k = string_of_nat i")
    case True
    with Cons.prems(2) have "x = val" by simp
    with True v' r show ?thesis by simp
  next
    case False
    with Cons.prems(2) have "map_of (index_props (Suc i) xs) k = Some x" by simp
    with Cons.IH [OF r'] obtain x' where "sanitizeObject x = Inr x'" "map_of r' k = Some x'"
      by blast
    with False r show ?thesis by simp
  qed
qed

lemma sanitize_elems_keys:
  "sanitize_elems i xs = Inr r \<Longrightarrow> map fst r = map string_of_nat [i..<i + length xs]"
proof (induction xs arbitrary: i r)
  case Nil
  then show ?case by simp
next
  case (Cons val xs)
  from Cons.prems obtain v' r' where
    r': "sanitize_elems (Suc i) xs = Inr r'" and r: "r = (string_of_nat i, v') # r'"
    by (auto simp: sanitize_value split: sum.splits)
  from Cons.IH [OF r'] have "map fst r' = map string_of_nat [Suc i..<Suc i + length xs]" .
  moreover have "[i..<i + length (val # xs)] = i # [Suc i..<Suc i + length xs]"
    by (simp del: upt_Suc add: upt_conv_Cons)
  ultimately show ?case using r by simp
qed

lemma sanitize_own_props_lookup:
  "sanitizeObject v = Inr r \<Longrightarrow> \<not> polluting k \<Longrightarrow> map_of (own_props v) k = Some x \<Longrightarrow>
   \<exists>x'. sanitizeObject x = Inr x' \<and> map_of (own_props r) k = Some x'"
proof (cases v)
  case (JArr xs)
  assume a: "sanitizeObject v = Inr r" "map_of (own_props v) k = Some x"
  with JArr obtain ps where ps: "sanitize_elems 0 xs = Inr ps" "r = JObj ps"
    by (auto split: sum.splits)
  with a JArr sanitize_elems_lookup [of 0 xs ps k x] show ?thesis by simp
next
  case (JObj kvs)
  assume a: "sanitizeObject v = Inr r" "map_of (own_props v) k = Some x" "\<not> polluting k"
  with JObj obtain ps
    where ps: "sanitize_props (map_of kvs ''hasOwnProperty'' \<noteq> None) kvs = Inr ps" "r = JObj ps"
    by (auto split: sum.splits)
  with a JObj sanitize_props_lookup [OF ps(1), of k x] show ?thesis by simp
qed auto

lemma sanitize_at_path:
  "sanitizeObject v = Inr r \<Longrightarrow> \<forall>k \<in> set ks. \<not> polluting k \<Longrightarrow> at_path v ks = Some x \<Longrightarrow>
   \<exists>x'. sanitizeObject x = Inr x' \<and> at_path r ks = Some x'"
proof (induction ks arbitrary: v r)
  case Nil
  then show ?case by simp
next
  case (Cons k ks)
  from Cons.prems(3) obtain y where y: "map_of (own_props v) k = Some y" "at_path y ks = Some x"
    by (auto split: option.splits)
  from Cons.prems(2) have k: "\<not> polluting k" and ks: "\<forall>k \<in> set ks. \<not> polluting k"
    by simp_all
  from sanitize_own_props_lookup [OF Cons.prems(1) k y(1)]
  obtain y' where y': "sanitizeObject y = Inr y'" "map_of (own_props r) k = Some y'"
    by blast
  from Cons.IH [OF y'(1) ks y(2)] obtain x'
    where "sanitizeObject x = Inr x'" "at_path y' ks = Some x'"
    by blast
  with y'(2) show ?case by simp
qed

lemma sanitize_leaf: "is_leaf x \<Longrightarrow> sanitizeObject x = Inr x"
  by (cases x) simp_all

lemma sanitize_array:
  "sanitizeObject (JArr xs) = Inr x' \<Longrightarrow>
   \<exists>props. x' = JObj props \<and> map fst props = map string_of_nat [0..<length xs]"
  using sanitize_elems_keys [of 0 xs] by (auto split: sum.splits)

text \<open>
  Claim C10, as amended.  For every input in which no visited object owns a property
  named \<open>hasOwnProperty\<close>, \<open>sanitizeObject\<close> returns, and at every position of the input
  that holds an array and is reached through non-polluting keys the result holds a plain
  object whose keys are the indices of the array, in order; every leaf value reached
  through non-polluting keys is found unchanged at the same position.
\<close>

theorem sanitizeObject_arrays_become_objects:
  assumes "no_shadowing v"
  shows "\<exists>r. sanitizeObject v = Inr r \<and>
     (\<forall>ks xs. (\<forall>k \<in> set ks. \<not> polluting k) \<and> at_path v ks = Some (JArr xs) \<longrightarrow>
        (\<exists>props. at_path r ks = Some (JObj props) \<and>
                  map fst props = map string_of_nat [0..<length xs])) \<and>
     (\<forall>ks x. (\<forall>k \<in> set ks. \<not> polluting k) \<and> at_path v ks = Some x \<and> is_leaf x \<longrightarrow>
        at_path r ks = Some x)"
proof -
  from assms obtain r where r: "sanitizeObject v = Inr r"
    using sanitize_returns(1) by blast
  have "\<exists>props. at_path r ks = Some (JObj props) \<and>
                map fst props = map string_of_nat [0..<length xs]"
    if "\<forall>k \<in> set ks. \<not> polluting k" and "at_path v ks = Some (JArr xs)" for ks xs
  proof -
    from sanitize_at_path [OF r that] obtain x'
      where "sanitizeObject (JArr xs) = Inr x'" "at_path r ks = Some x'"
      by blast
    with sanitize_array show ?thesis by blast
  qed
  moreover have "at_path r ks = Some x"
    if "\<forall>k \<in> set ks. \<not> polluting k" and "at_path v ks = Some x" and "is_leaf x" for ks x
    using sanitize_at_path [OF r that(1,2)] sanitize_leaf [OF that(3)] by auto
  ultimately show ?thesis using r by blast
qed

theorem sanitizeObject_arrays_become_objects_witness:
  "\<exists>r. sanitizeObject nested_demo = Inr r \<and>
       (\<exists>props. at_path r [''list''] = Some (JObj props) \<and> map fst props = [''0'', ''1'']) \<and>
       at_path r [''a''] = Some (JNum 1)"
proof -
  let ?xs = "[JStr ''x'', JObj [(''constructor'', JNum 0), (''k'', JNull)]]"
  have safe: "no_shadowing nested_demo"
    by (simp add: nested_demo_def polluting_def)
  have arr: "(\<forall>k \<in> set [''list'']. \<not> polluting k) \<and>
             at_path nested_demo [''list''] = Some (JArr ?xs)"
    by (simp add: nested_demo_def polluting_def)
  have leaf: "(\<forall>k \<in> set [''a'']. \<not> polluting k) \<and>
              at_path nested_demo [''a''] = Some (JNum 1) \<and> is_leaf (JNum 1)"
    by (simp add: nested_demo_def polluting_def)
  have idx: "map string_of_nat [0..<length ?xs] = [''0'', ''1'']"
    by (simp add: string_of_nat.simps digit_char_def)
  from sanitizeObject_arrays_become_objects [OF safe] obtain r where
    all: "sanitizeObject nested_demo = Inr r \<and>
     (\<forall>ks xs. (\<forall>k \<in> set ks. \<not> polluting k) \<and> at_path nested_demo ks = Some (JArr xs) \<longrightarrow>
        (\<exists>props. at_path r ks = Some (JObj props) \<and>
                  map fst props = map string_of_nat [0..<length xs])) \<and>
     (\<forall>ks x. (\<forall>k \<in> set ks. \<not> polluting k) \<and> at_path nested_demo ks = Some x \<and> is_leaf x \<longrightarrow>
        at_path r ks = Some x)" ..
  from all have r: "sanitizeObject nested_demo = Inr r"
    by (rule conjunct1)
  from all have
    "\<forall>ks xs. (\<forall>k \<in> set ks. \<not> polluting k) \<and> at_path nested_demo ks = Some (JArr xs) \<longrightarrow>
        (\<exists>props. at_path r ks = Some (JObj props) \<and>
                  map fst props = map string_of_nat [0..<length xs])"
    by (rule conjunct2 [THEN conjunct1])
  then have
    "\<forall>xs. (\<forall>k \<in> set [''list'']. \<not> polluting k) \<and>
          at_path nested_demo [''list''] = Some (JArr xs) \<longrightarrow>
        (\<exists>props. at_path r [''list''] = Some (JObj props) \<and>
                  map fst props = map string_of_nat [0..<length xs])"
    by (rule spec)
  then have
    "(\<forall>k \<in> set [''list'']. \<not> polluting k) \<and>
       at_path nested_demo [''list''] = Some (JArr ?xs) \<longrightarrow>
     (\<exists>props. at_path r [''list''] = Some (JObj props) \<and>
               map fst props = map string_of_nat [0..<length ?xs])"
    by (rule spec)
  then have "\<exists>props. at_path r [''list''] = Some (JObj props) \<and>
               map fst props = map string_of_nat [0..<length ?xs]"
    using arr by (rule mp)
  then have first: "\<exists>props. at_path r [''list''] = Some (JObj props) \<and>
                      map fst props = [''0'', ''1'']"
    by (simp only: idx)
  from all have
    "\<forall>ks x. (\<forall>k \<in> set ks. \<not> polluting k) \<and> at_path nested_demo ks = Some x \<and> is_leaf x \<longrightarrow>
        at_path r ks = Some x"
    by (rule conjunct2 [THEN conjunct2])
  then have
    "\<forall>x. (\<forall>k \<in> set [''a'']. \<not> polluting k) \<and> at_path nested_demo [''a''] = Some x \<and> is_leaf x \<longrightarrow>
        at_path r [''a''] = Some x"
    by (rule spec)
  then have
    "(\<forall>k \<in> set [''a'']. \<not> polluting k) \<and> at_path nested_demo [''a''] = Some (JNum 1) \<and>
       is_leaf (JNum 1) \<longrightarrow> at_path r [''a''] = Some (JNum 1)"
    by (rule spec)
  then have second: "at_path r [''a''] = Some (JNum 1)"
    using leaf by (rule mp)
  from r first second have packed: "sanitizeObject nested_demo = Inr r \<and>
       (\<exists>props. at_path r [''list''] = Some (JObj props) \<and> map fst props = [''0'', ''1'']) \<and>
       at_path r [''a''] = Some (JNum 1)"
    by (intro conjI)
  show ?thesis by (rule exI [of _ r]) (rule packed)
qed

text \<open>
  Claim C10 as stated fails.  An array under a dropped key has no counterpart in the
  result, and an object that owns a property named \<open>hasOwnProperty\<close> makes the call
  throw.
\<close>

theorem sanitizeObject_arrays_become_objects_counterexample:
  "sanitizeObject (JObj [(''prototype'', JArr [JNum 1, JNum 2])]) = Inr (JObj []) \<and>
   sanitizeObject (JObj [(''hasOwnProperty'', JNum 1), (''a'', JArr [JNum 1])]) =
     Inl (TypeError ''obj.hasOwnProperty is not a function'')"
  by simp

section \<open>Properties of validateAuditEntry\<close>

lemma map_of_set_prop:
  "map_of (set_prop kvs k v) k' = (if k' = k then Some v else map_of kvs k')"
  by (induction kvs) auto

lemma get_prop_JObj:
  "get_prop (JObj kvs) k = (case map_of kvs k of None \<Rightarrow> JUndefined | Some v \<Rightarrow> v)"
  by (simp add: get_prop_def)

lemma whitelist_lookup:
  "map_of (own_props entry) ''hasOwnProperty'' = None \<Longrightarrow>
   \<exists>r. whitelist entry keys sanitized = Inr r \<and>
       (\<forall>k. map_of r k =
          (if k \<in> set keys \<and> map_of (own_props entry) k \<noteq> None
           then Some (get_prop entry k) else map_of sanitized k))"
proof (induction keys arbitrary: sanitized)
  case Nil
  then show ?case by simp
next
  case (Cons key keys)
  let ?next = "if map_of (own_props entry) key \<noteq> None
               then set_prop sanitized key (get_prop entry key) else sanitized"
  from Cons.IH [OF Cons.prems, of ?next] obtain r where
    r: "whitelist entry keys ?next = Inr r"
       "\<forall>k. map_of r k = (if k \<in> set keys \<and> map_of (own_props entry) k \<noteq> None
                           then Some (get_prop entry k) else map_of ?next k)"
    by blast
  have "whitelist entry (key # keys) sanitized = Inr r"
    using r(1) Cons.prems by (simp add: hasOwnProperty_def)
  moreover have "map_of r k =
          (if k \<in> set (key # keys) \<and> map_of (own_props entry) k \<noteq> None
           then Some (get_prop entry k) else map_of sanitized k)" for k
    using r(2) by (auto simp: map_of_set_prop)
  ultimately show ?case by blast
qed

lemma assemble_entry_details:
  assumes ok: "required_fields_ok entry"
    and own: "map_of (own_props entry) ''hasOwnProperty'' = None"
    and d: "map_of (own_props entry) ''details'' = Some d" "truthy d" "typeof d = ''object''"
    and d': "sanitizeObject d = Inr d'"
  shows "\<exists>assembled. assemble_entry rt entry = Inr assembled \<and>
           get_prop (JObj assembled) ''details'' =
             (if MAX_DETAILS_SIZE < length (JSON_stringify rt d')
              then truncation_marker (length (JSON_stringify rt d')) else d')"
proof -
  from whitelist_lookup [OF own, of ALLOWED_AUDIT_FIELDS "[]"] obtain wl where
    wl: "whitelist entry ALLOWED_AUDIT_FIELDS [] = Inr wl"
        "\<forall>k. map_of wl k =
           (if k \<in> set ALLOWED_AUDIT_FIELDS \<and> map_of (own_props entry) k \<noteq> None
            then Some (get_prop entry k) else map_of [] k)"
    by blast
  have "map_of wl ''details'' = Some d"
    using wl(2) d(1) by (simp add: ALLOWED_AUDIT_FIELDS_def get_prop_def)
  then have det: "get_prop (JObj wl) ''details'' = d"
    by (simp add: get_prop_JObj)
  have "assemble_entry rt entry = bound_details rt wl"
    using ok wl(1) by (auto simp add: assemble_entry_def required_fields_ok_def)
  also have "\<dots> = Inr (set_prop wl ''details''
       (if MAX_DETAILS_SIZE < length (JSON_stringify rt d')
        then truncation_marker (length (JSON_stringify rt d')) else d'))"
    using det d d' by (simp add: bound_details_def Let_def)
  finally show ?thesis
    by (simp add: get_prop_JObj map_of_set_prop)
qed

text \<open>
  Claim C4, as amended.  For every entry that passes the checks of the required fields
  and owns a \<open>details\<close> property that is a non-null object, where neither the entry nor
  an object that \<open>sanitizeObject\<close> visits in the details owns a property named
  \<open>hasOwnProperty\<close>: the details are sanitized, and the assembled entry carries as
  \<open>details\<close> the marker \<open>{_truncated: true, _size, summary}\<close>, with \<open>_size\<close> the
  serialized length of the sanitized details, when that length exceeds 5000, and the
  sanitized details otherwise.  For every entry whose assembly succeeds, the call fails
  with the error \<open>Audit entry too large\<close> when the serialized length of the assembled
  entry exceeds 10000, and returns the assembled entry, untruncated, otherwise.
\<close>

theorem validateAuditEntry_size_limits:
  "(required_fields_ok entry \<and> map_of (own_props entry) ''hasOwnProperty'' = None \<and>
    map_of (own_props entry) ''details'' = Some d \<and> truthy d \<and> typeof d = ''object'' \<and>
    no_shadowing d \<longrightarrow>
      (\<exists>d' assembled. sanitizeObject d = Inr d' \<and> assemble_entry rt entry = Inr assembled \<and>
           get_prop (JObj assembled) ''details'' =
             (if MAX_DETAILS_SIZE < length (JSON_stringify rt d')
              then truncation_marker (length (JSON_stringify rt d')) else d'))) \<and>
   (assemble_entry rt entry = Inr assembled \<longrightarrow>
      validateAuditEntry rt entry =
        (if MAX_AUDIT_ENTRY_SIZE < length (JSON_stringify rt (JObj assembled))
         then Inl (Error (too_large_message (length (JSON_stringify rt (JObj assembled)))))
         else Inr (JObj assembled)))"
proof (intro conjI impI)
  assume a: "required_fields_ok entry \<and> map_of (own_props entry) ''hasOwnProperty'' = None \<and>
    map_of (own_props entry) ''details'' = Some d \<and> truthy d \<and> typeof d = ''object'' \<and>
    no_shadowing d"
  then obtain d' where d': "sanitizeObject d = Inr d'"
    using sanitize_returns(1) by blast
  with a assemble_entry_details [of entry d d' rt] obtain assembled where
    "assemble_entry rt entry = Inr assembled \<and>
     get_prop (JObj assembled) ''details'' =
       (if MAX_DETAILS_SIZE < length (JSON_stringify rt d')
        then truncation_marker (length (JSON_stringify rt d')) else d')"
    by blast
  with d' show "\<exists>d' assembled. sanitizeObject d = Inr d' \<and>
           assemble_entry rt entry = Inr assembled \<and>
           get_prop (JObj assembled) ''details'' =
             (if MAX_DETAILS_SIZE < length (JSON_stringify rt d')
              then truncation_marker (length (JSON_stringify rt d')) else d')"
    by blast
next
  assume "assemble_entry rt entry = Inr assembled"
  then show "validateAuditEntry rt entry =
        (if MAX_AUDIT_ENTRY_SIZE < length (JSON_stringify rt (JObj assembled))
         then Inl (Error (too_large_message (length (JSON_stringify rt (JObj assembled)))))
         else Inr (JObj assembled))"
    by (simp add: validateAuditEntry_def too_large_message_def Let_def)
qed

subsection \<open>The concrete entries\<close>

lemma json_escape_a: "json_escape (CHR ''a'') = ''a''"
  by (simp add: json_escape_def)

lemma json_string_filler: "length (json_string (filler n)) = n + 2"
  by (induction n) (simp_all add: json_string_def filler_def json_escape_a)

lemma demo_stringify: "JSON_stringify demo_runtime = json"
  by (simp add: demo_runtime_def)

lemma json_string_plain:
  "json_string ''note'' = [CHR 0x22] @ ''note'' @ [CHR 0x22]"
  "json_string ''constructor'' = [CHR 0x22] @ ''constructor'' @ [CHR 0x22]"
  "json_string ''action'' = [CHR 0x22] @ ''action'' @ [CHR 0x22]"
  "json_string ''actedBy'' = [CHR 0x22] @ ''actedBy'' @ [CHR 0x22]"
  "json_string ''target'' = [CHR 0x22] @ ''target'' @ [CHR 0x22]"
  "json_string ''details'' = [CHR 0x22] @ ''details'' @ [CHR 0x22]"
  "json_string ''u1'' = [CHR 0x22] @ ''u1'' @ [CHR 0x22]"
  "json_string ''matrix_cell_update'' = [CHR 0x22] @ ''matrix_cell_update'' @ [CHR 0x22]"
  "json_string ''_truncated'' = [CHR 0x22] @ ''_truncated'' @ [CHR 0x22]"
  "json_string ''_size'' = [CHR 0x22] @ ''_size'' @ [CHR 0x22]"
  "json_string ''summary'' = [CHR 0x22] @ ''summary'' @ [CHR 0x22]"
  "json_string ''Details truncated due to size limit'' =
     [CHR 0x22] @ ''Details truncated due to size limit'' @ [CHR 0x22]"
  by (simp_all add: json_string_def json_escape_def)

lemma json_note_length: "length (json (JObj [(''note'', JStr (filler 5000))])) = 5011"
  by (simp add: json_string_filler json_string_plain)

lemma json_constructor_length:
  "length (json (JObj [(''constructor'', JStr (filler 5000))])) = 5018"
  by (simp add: json_string_filler json_string_plain)

lemma json_big_target_length:
  "length (json (JObj [(''action'', JStr ''matrix_cell_update''), (''actedBy'', JStr ''u1''),
        (''target'', JStr (filler 10000))])) = 10058"
  by (simp add: json_string_filler json_string_plain)

lemma json_marker_entry_length:
  "length (json (JObj [(''action'', JStr ''matrix_cell_update''), (''actedBy'', JStr ''u1''),
      (''details'', truncation_marker 5011)])) = 137"
  by (simp add: truncation_marker_def json_string_plain string_of_int_def
        string_of_nat.simps digit_char_def)

lemma json_empty_details_length:
  "length (json (JObj [(''action'', JStr ''matrix_cell_update''), (''actedBy'', JStr ''u1''),
      (''details'', JObj [])])) = 59"
  by (simp add: json_string_plain)

lemma whitelist_big_details:
  "whitelist big_details_entry ALLOWED_AUDIT_FIELDS [] =
   Inr [(''action'', JStr ''matrix_cell_update''), (''actedBy'', JStr ''u1''),
        (''details'', JObj [(''note'', JStr (filler 5000))])]"
  by (simp add: big_details_entry_def ALLOWED_AUDIT_FIELDS_def hasOwnProperty_def get_prop_def)

lemma whitelist_polluted_details:
  "whitelist polluted_details_entry ALLOWED_AUDIT_FIELDS [] =
   Inr [(''action'', JStr ''matrix_cell_update''), (''actedBy'', JStr ''u1''),
        (''details'', JObj [(''constructor'', JStr (filler 5000))])]"
  by (simp add: polluted_details_entry_def ALLOWED_AUDIT_FIELDS_def hasOwnProperty_def
        get_prop_def)

lemma whitelist_big_target:
  "whitelist big_target_entry ALLOWED_AUDIT_FIELDS [] =
   Inr [(''action'', JStr ''matrix_cell_update''), (''actedBy'', JStr ''u1''),
        (''target'', JStr (filler 10000))]"
  by (simp add: big_target_entry_def ALLOWED_AUDIT_FIELDS_def hasOwnProperty_def get_prop_def)

lemma assemble_big_details:
  "assemble_entry demo_runtime big_details_entry =
    Inr [(''action'', JStr ''matrix_cell_update''), (''actedBy'', JStr ''u1''),
         (''details'', truncation_marker 5011)]"
proof -
  have "bound_details demo_runtime
          [(''action'', JStr ''matrix_cell_update''), (''actedBy'', JStr ''u1''),
           (''details'', JObj [(''note'', JStr (filler 5000))])] =
        Inr [(''action'', JStr ''matrix_cell_update''), (''actedBy'', JStr ''u1''),
             (''details'', truncation_marker 5011)]"
    by (simp add: bound_details_def demo_stringify json_note_length MAX_DETAILS_SIZE_def
          get_prop_JObj del: json.simps)
  then show ?thesis
    by (simp add: assemble_entry_def whitelist_big_details)
       (simp add: big_details_entry_def get_prop_def)
qed

lemma assemble_polluted_details:
  "assemble_entry demo_runtime polluted_details_entry =
    Inr [(''action'', JStr ''matrix_cell_update''), (''actedBy'', JStr ''u1''),
         (''details'', JObj [])]"
proof -
  have "bound_details demo_runtime
          [(''action'', JStr ''matrix_cell_update''), (''actedBy'', JStr ''u1''),
           (''details'', JObj [(''constructor'', JStr (filler 5000))])] =
        Inr [(''action'', JStr ''matrix_cell_update''), (''actedBy'', JStr ''u1''),
             (''details'', JObj [])]"
    by (simp add: bound_details_def demo_stringify MAX_DETAILS_SIZE_def get_prop_JObj)
  then show ?thesis
    by (simp add: assemble_entry_def whitelist_polluted_details)
       (simp add: polluted_details_entry_def get_prop_def)
qed

lemma assemble_big_target:
  "assemble_entry demo_runtime big_target_entry =
    Inr [(''action'', JStr ''matrix_cell_update''), (''actedBy'', JStr ''u1''),
         (''target'', JStr (filler 10000))]"
proof -
  have "bound_details demo_runtime
          [(''action'', JStr ''matrix_cell_update''), (''actedBy'', JStr ''u1''),
           (''target'', JStr (filler 10000))] =
        Inr [(''action'', JStr ''matrix_cell_update''), (''actedBy'', JStr ''u1''),
             (''target'', JStr (filler 10000))]"
    by (simp add: bound_details_def get_prop_JObj)
  then show ?thesis
    by (simp add: assemble_entry_def whitelist_big_target)
       (simp add: big_target_entry_def get_prop_def)
qed

lemma too_large_message_10058:
  "too_large_message 10058 = ''Audit entry too large: 10058 bytes (max 10000)''"
  by (simp add: too_large_message_def MAX_AUDIT_ENTRY_SIZE_def string_of_nat.simps
        digit_char_def)

theorem validateAuditEntry_size_limits_witness:
  "(\<exists>assembled. assemble_entry demo_runtime big_details_entry = Inr assembled \<and>
      get_prop (JObj assembled) ''details'' = truncation_marker 5011) \<and>
   validateAuditEntry demo_runtime big_target_entry =
     Inl (Error ''Audit entry too large: 10058 bytes (max 10000)'')"
proof -
  let ?d = "JObj [(''note'', JStr (filler 5000))]"
  have hyp: "required_fields_ok big_details_entry \<and>
        map_of (own_props big_details_entry) ''hasOwnProperty'' = None \<and>
        map_of (own_props big_details_entry) ''details'' = Some ?d \<and>
        truthy ?d \<and> typeof ?d = ''object'' \<and> no_shadowing ?d"
    by (simp add: required_fields_ok_def big_details_entry_def get_prop_def polluting_def)
  have san: "sanitizeObject ?d = Inr ?d"
    by simp
  from validateAuditEntry_size_limits [of big_details_entry ?d demo_runtime "[]"] hyp
  obtain d' assembled where
    ob: "sanitizeObject ?d = Inr d' \<and> assemble_entry demo_runtime big_details_entry = Inr assembled \<and>
     get_prop (JObj assembled) ''details'' =
       (if MAX_DETAILS_SIZE < length (JSON_stringify demo_runtime d')
        then truncation_marker (length (JSON_stringify demo_runtime d')) else d')"
    by blast
  from ob san have dd: "d' = ?d"
    by simp
  from ob have "assemble_entry demo_runtime big_details_entry = Inr assembled \<and>
      get_prop (JObj assembled) ''details'' = truncation_marker 5011"
    unfolding dd
    by (simp add: demo_stringify json_note_length MAX_DETAILS_SIZE_def del: json.simps)
  then have first: "\<exists>assembled. assemble_entry demo_runtime big_details_entry = Inr assembled \<and>
      get_prop (JObj assembled) ''details'' = truncation_marker 5011"
    by (rule exI [of _ assembled])
  from validateAuditEntry_size_limits [of big_target_entry JNull demo_runtime
      "[(''action'', JStr ''matrix_cell_update''), (''actedBy'', JStr ''u1''),
        (''target'', JStr (filler 10000))]"]
  have "validateAuditEntry demo_runtime big_target_entry =
          Inl (Error ''Audit entry too large: 10058 bytes (max 10000)'')"
    by (simp add: assemble_big_target demo_stringify json_big_target_length
          MAX_AUDIT_ENTRY_SIZE_def too_large_message_10058 del: json.simps)
  with first show ?thesis by (rule conjI)
qed

text \<open>
  Claim C4 as stated fails.  The marker that replaces oversized details has the keys
  \<open>_truncated\<close> and \<open>_size\<close>, not \<open>truncated\<close> and \<open>size\<close>; details whose serialized
  size exceeds 5000 only through a dropped key are measured after sanitization and kept;
  and an entry that owns a property named \<open>hasOwnProperty\<close> makes the whitelist loop
  throw before the details are looked at.
\<close>

theorem validateAuditEntry_size_limits_counterexample:
  "validateAuditEntry demo_runtime big_details_entry =
     Inr (JObj [(''action'', JStr ''matrix_cell_update''), (''actedBy'', JStr ''u1''),
                (''details'',
                 JObj [(''_truncated'', JBool True), (''_size'', JNum 5011),
                       (''summary'', JStr ''Details truncated due to size limit'')])]) \<and>
   get_prop (truncation_marker 5011) ''truncated'' = JUndefined \<and>
   get_prop (truncation_marker 5011) ''size'' = JUndefined \<and>
   MAX_DETAILS_SIZE <
     length (JSON_stringify demo_runtime (get_prop polluted_details_entry ''details'')) \<and>
   validateAuditEntry demo_runtime polluted_details_entry =
     Inr (JObj [(''action'', JStr ''matrix_cell_update''), (''actedBy'', JStr ''u1''),
                (''details'', JObj [])]) \<and>
   validateAuditEntry demo_runtime shadowed_entry =
     Inl (TypeError ''entry.hasOwnProperty is not a function'')"
proof -
  have "validateAuditEntry demo_runtime big_details_entry =
     Inr (JObj [(''action'', JStr ''matrix_cell_update''), (''actedBy'', JStr ''u1''),
                (''details'', truncation_marker 5011)])"
    by (simp add: validateAuditEntry_def assemble_big_details demo_stringify
          json_marker_entry_length MAX_AUDIT_ENTRY_SIZE_def del: json.simps)
  moreover have "get_prop (truncation_marker 5011) ''truncated'' = JUndefined"
    "get_prop (truncation_marker 5011) ''size'' = JUndefined"
    by (simp_all add: truncation_marker_def get_prop_def)
  moreover have "MAX_DETAILS_SIZE <
     length (JSON_stringify demo_runtime (get_prop polluted_details_entry ''details''))"
    by (simp add: polluted_details_entry_def get_prop_def demo_stringify
          json_constructor_length MAX_DETAILS_SIZE_def del: json.simps)
  moreover have "validateAuditEntry demo_runtime polluted_details_entry =
     Inr (JObj [(''action'', JStr ''matrix_cell_update''), (''actedBy'', JStr ''u1''),
                (''details'', JObj [])])"
    by (simp add: validateAuditEntry_def assemble_polluted_details demo_stringify
          json_empty_details_length MAX_AUDIT_ENTRY_SIZE_def del: json.simps)
  moreover have "validateAuditEntry demo_runtime shadowed_entry =
     Inl (TypeError ''entry.hasOwnProperty is not a function'')"
    by (simp add: validateAuditEntry_def assemble_entry_def shadowed_entry_def get_prop_def
          ALLOWED_AUDIT_FIELDS_def hasOwnProperty_def)
  ultimately show ?thesis
    by (simp add: truncation_marker_def)
qed

section \<open>Properties of the writers\<close>

lemma string_of_int_small [simp]:
  "string_of_int 1 = ''1''" "string_of_int 2 = ''2''" "string_of_int 3 = ''3''"
  by (simp_all add: string_of_int_def string_of_nat.simps digit_char_def)

lemma retry_first_success:
  "fn w = (Inr v, w1) \<Longrightarrow> retryWithBackoff fn MAX_RETRY_ATTEMPTS delay w = (Inr (Some v), w1)"
  by (simp add: retryWithBackoff_def retryWithBackoff_counted_def MAX_RETRY_ATTEMPTS_def
        retry_from.simps)

subsection \<open>Writing a matrix cell\<close>




lemma write_call_docs: "docs (snd (write_call c w)) = docs w"
  by (simp add: write_call_cases split: list.splits option.splits)











subsection \<open>The theme writer\<close>

text \<open>
  Claim C2 fails on \<open>setTheme\<close>.  The writer takes no audit context, and a successful
  theme update makes one store call, the update itself: no audit entry is attempted.
\<close>

theorem setTheme_writes_no_audit_entry:
  "setTheme demo_runtime (JStr ''school_001'') (JObj [(''mode'', JStr ''dark'')]) world0 =
     (Inr (),
      world0\<lparr>trace := [UpdateDoc [JStr ''schools'', JStr ''school_001'']
                          (JObj [(''theme'', JObj [(''mode'', JStr ''dark'')]),
                                 (''lastModified'', serverTimestamp demo_runtime)])],
             console := [(''log'', ''[Data] Updating school theme''),
                         (''log'', ''[Data] Theme updated successfully'')]\<rparr>)"
  by (simp add: setTheme_def validateDocParams_def bind_def try_catch_def console_out_def
        retry_first_success updateDoc_def write_call_def world0_def Let_def)

theorem setTheme_writes_no_audit_entry_witness:
  "fst (setTheme demo_runtime (JStr ''school_001'') (JObj [(''mode'', JStr ''dark'')]) world0) =
     Inr () \<and>
   trace (snd (setTheme demo_runtime (JStr ''school_001'') (JObj [(''mode'', JStr ''dark'')])
                 world0)) =
     [UpdateDoc [JStr ''schools'', JStr ''school_001'']
        (JObj [(''theme'', JObj [(''mode'', JStr ''dark'')]),
               (''lastModified'', serverTimestamp demo_runtime)])]"
  using setTheme_writes_no_audit_entry by (simp add: world0_def)

text \<open>
  The three other writers do what the claim says: without an audit context that carries
  \<open>actedBy\<close> they fail before any store call, and a saved comment is followed by the
  write of its audit entry.
\<close>

lemma writers_require_ctx:
  assumes "\<not> truthy ctx \<or> \<not> truthy (get_prop ctx ''actedBy'')"
  shows "\<exists>m. saveMatrixCell rt b schoolId planId dayKey periodId goalId v ctx w =
           (Inl (Error m), w)"
    and "\<exists>m. saveComment rt schoolId planId dayKey role text ctx w = (Inl (Error m), w)"
    and "\<exists>m. logCustomIncident rt now_id random now_ts schoolId planId dayKey button note source ctx w =
           (Inl (Error m), w)"
  using assms
  by (auto simp: saveMatrixCell_def saveComment_def logCustomIncident_def bind_def throw_def
        validateDocParams_def Let_def)

lemma saveComment_audits:
  "trace (snd (saveComment demo_runtime (JStr ''school_001'') (JStr ''plan_1'') ''2025-01-15''
                 (JStr ''teacher'') (JStr ''ok'') teacher_ctx world0)) =
     [SetDocMerge (day_ref (JStr ''school_001'') (JStr ''plan_1'') ''2025-01-15'')
        (JObj [(''lastModified'', serverTimestamp demo_runtime),
               (''comments.teacher'', JStr ''ok'')]),
      AddDoc (audit_logs_ref (JStr ''school_001''))
        (JObj [(''ts'', serverTimestamp demo_runtime),
               (''action'', JStr ''comment_save''), (''actedBy'', JStr ''u1''),
               (''target'', JStr ''plan_1/2025-01-15''),
               (''details'', JObj [(''role'', JStr ''teacher''), (''textLength'', JNum 2)]),
               (''asRole'', JStr ''teacher'')])]"
  by code_simp

end
